theory Spec2Isabelle
  imports Complex_Main
begin

section \<open>Exceptions, results and errno tables\<close>

text \<open>
  The embedding follows \<^verbatim>\<open>guv/greenio.py\<close> and \<^verbatim>\<open>guv/hubs/hub.py\<close> (Python 3, where
  \<^verbatim>\<open>socket.error\<close> and \<^verbatim>\<open>IOError\<close> are both \<^verbatim>\<open>OSError\<close>). An exception is a value; a call
  either returns or raises. Timeouts are Python floats, modelled as reals (no NaN, no
  rounding).
\<close>

datatype exn_arg = ArgInt int | ArgStr string

datatype exn =
    OSError "exn_arg list"
  | SocketTimeout "exn_arg list"
  | IOClosed
  | EOFError
  | ValueError string
  | TypeError string
  | KeyError int
  | ImportError
  | AttributeError string
  | OtherError string

datatype 'a result = Return 'a | Raise exn

text \<open>\<^verbatim>\<open>except socket.error\<close>: \<^verbatim>\<open>socket.timeout\<close> is a subclass of \<^verbatim>\<open>OSError\<close>.\<close>

fun is_socket_error :: "exn \<Rightarrow> bool" where
  "is_socket_error (OSError as) = True"
| "is_socket_error (SocketTimeout as) = True"
| "is_socket_error e = False"

text \<open>\<^verbatim>\<open>e.args\<close> of an \<^verbatim>\<open>OSError\<close>, and \<^verbatim>\<open>IOError(*e.args)\<close> built from them.\<close>

fun exn_args :: "exn \<Rightarrow> exn_arg list" where
  "exn_args (OSError as) = as"
| "exn_args (SocketTimeout as) = as"
| "exn_args e = []"

definition IOError_of :: "exn \<Rightarrow> exn" where
  "IOError_of e = OSError (exn_args e)"

text \<open>
  Modelled from the spec: the closed-signal type \<^verbatim>\<open>IOClosed\<close> (\<^verbatim>\<open>guv/exceptions.py\<close>) is
  "a distinguished error value", so it is no \<^verbatim>\<open>socket.error\<close>; and the errno-extraction
  helper \<^verbatim>\<open>get_errno\<close> (\<^verbatim>\<open>guv/support.py\<close>) "returns its numeric code": the first
  argument of an \<^verbatim>\<open>OSError\<close> (\<^verbatim>\<open>socket.error(err, msg)\<close>, \<^verbatim>\<open>socket.error(err)\<close>,
  \<^verbatim>\<open>socket.timeout(err)\<close>) when it is an integer, else nothing numeric. The code applies
  it to caught \<^verbatim>\<open>OSError\<close>s only.
\<close>

fun get_errno :: "exn \<Rightarrow> int option" where
  "get_errno (OSError (ArgInt n # as)) = Some n"
| "get_errno (SocketTimeout (ArgInt n # as)) = Some n"
| "get_errno e = None"

text \<open>The errno numbers are those of Linux; \<^verbatim>\<open>sys.platform\<close> is not \<^verbatim>\<open>win\<close>.\<close>

definition EAGAIN :: int where "EAGAIN = 11"
definition EWOULDBLOCK :: int where "EWOULDBLOCK = 11"
definition EPIPE :: int where "EPIPE = 32"
definition EINVAL :: int where "EINVAL = 22"
definition EBADFD :: int where "EBADFD = 77"
definition ECONNRESET :: int where "ECONNRESET = 104"
definition EISCONN :: int where "EISCONN = 106"
definition ENOTCONN :: int where "ENOTCONN = 107"
definition ESHUTDOWN :: int where "ESHUTDOWN = 108"
definition ECONNREFUSED :: int where "ECONNREFUSED = 111"
definition EALREADY :: int where "EALREADY = 114"
definition EINPROGRESS :: int where "EINPROGRESS = 115"

definition CONNECT_ERR :: "int set" where
  "CONNECT_ERR = {EINPROGRESS, EALREADY, EWOULDBLOCK}"

definition CONNECT_SUCCESS :: "int set" where
  "CONNECT_SUCCESS = {0, EISCONN}"

definition SOCKET_BLOCKING :: "int set" where
  "SOCKET_BLOCKING = {EAGAIN, EWOULDBLOCK, ENOTCONN}"

definition SOCKET_CLOSED :: "int set" where
  "SOCKET_CLOSED = {ECONNRESET, ESHUTDOWN, EPIPE}"

text \<open>\<^verbatim>\<open>get_errno(e) in S\<close>: a value that is no number is in no errno set.\<close>

fun errno_in :: "int option \<Rightarrow> int set \<Rightarrow> bool" where
  "errno_in None S = False"
| "errno_in (Some n) S = (n \<in> S)"

section \<open>The hub's suspend primitive and the trace of external calls\<close>

text \<open>
  Python values passed through: \<open>PyNum r\<close> has a \<^verbatim>\<open>__float__\<close> that gives \<open>r\<close>; \<open>PyBytes\<close>
  and \<open>PyObject\<close> have none; \<open>PyDefaultTimeout\<close> is the sentinel
  \<^verbatim>\<open>_GLOBAL_DEFAULT_TIMEOUT\<close>.
\<close>

datatype pyval = PyNone | PyDefaultTimeout | PyNum real | PyBytes string | PyObject string

text \<open>
  A Python object of the hub registry: a backend module or a hub class, with its identity,
  its attribute \<^verbatim>\<open>Hub\<close> if it has one, and whether calling it constructs an instance. A hub
  instance records the type that built it and a serial number (its identity).
\<close>

datatype pyobj = PyObj (obj_id: nat) (Hub_attr: "pyobj option") (constructible: bool)

datatype hub_instance = HubInstance (hub_type: pyobj) (hub_serial: nat)

text \<open>The calls that leave the program: to the hub and to the operating system.\<close>

datatype call =
    Trampoline int bool bool "real option" "exn option"
  | HubNotifyClose hub_instance int
  | HubMarkAsReopened hub_instance int
  | OsRecv nat int
  | OsSend string int
  | OsConnect string
  | OsConnectEx string
  | OsGetsockoptSoError
  | OsAccept
  | OsSetblocking int bool
  | OsSendto "pyval list"
  | OsRead int nat
  | OsWrite int string
  | OsClose int
  | OsLseek int int int

datatype hub_outcome = Ready | TimedOut | Closed

text \<open>
  Modelled from the spec: \<^verbatim>\<open>trampoline(fd, read, write, timeout, timeout_exc)\<close> of
  \<^verbatim>\<open>guv.hubs\<close> "suspends the calling task until the descriptor is ready ..., or raises
  the supplied timeout error/value after \<open>timeout\<close> elapses, or raises a closed signal".
  The hub's answer to one wait is a \<open>hub_outcome\<close>. A wait with no deadline arms no timer,
  so an expiry cannot end it: it ends as ready.
\<close>

definition trampoline ::
  "int \<Rightarrow> bool \<Rightarrow> bool \<Rightarrow> real option \<Rightarrow> exn option \<Rightarrow> hub_outcome \<Rightarrow> unit result" where
  "trampoline fd rd wr tmo texc h =
     (case h of
        Ready \<Rightarrow> Return ()
      | Closed \<Rightarrow> Raise IOClosed
      | TimedOut \<Rightarrow>
          (case tmo of
             None \<Rightarrow> Return ()
           | Some t \<Rightarrow>
               (case texc of
                  None \<Rightarrow> Raise (OtherError ''Timeout'')
                | Some e \<Rightarrow> Raise e)))"

section \<open>GreenSocket\<close>

text \<open>The wrapped OS socket: its descriptor and the timeout the OS object holds.\<close>

record os_socket =
  os_fileno :: int
  os_timeout :: "real option"

record green_socket =
  sock :: os_socket
  act_non_blocking :: bool
  gs_timeout :: "real option"
  gs_closed :: bool

definition fileno :: "green_socket \<Rightarrow> int" where
  "fileno s = os_fileno (sock s)"

definition gettimeout :: "green_socket \<Rightarrow> real option" where
  "gettimeout s = gs_timeout s"

definition mark_as_closed :: "green_socket \<Rightarrow> green_socket" where
  "mark_as_closed s = s\<lparr>gs_closed := True\<rparr>"

definition setblocking :: "green_socket \<Rightarrow> bool \<Rightarrow> green_socket" where
  "setblocking s flag =
     (if flag then s\<lparr>act_non_blocking := False, gs_timeout := None\<rparr>
      else s\<lparr>act_non_blocking := True, gs_timeout := Some 0\<rparr>)"

text \<open>
  \<^verbatim>\<open>settimeout(howlong)\<close>. The socket is returned beside the result, so that a raise
  shows the state it leaves.
\<close>

definition settimeout :: "green_socket \<Rightarrow> pyval \<Rightarrow> unit result \<times> green_socket" where
  "settimeout s howlong =
     (case howlong of
        PyNone \<Rightarrow> (Return (), setblocking s True)
      | PyDefaultTimeout \<Rightarrow> (Return (), setblocking s True)
      | PyBytes b \<Rightarrow> (Raise (TypeError ''a float is required''), s)
      | PyObject x \<Rightarrow> (Raise (TypeError ''a float is required''), s)
      | PyNum f \<Rightarrow>
          if f < 0 then (Raise (ValueError ''Timeout value out of range''), s)
          else if f = 0 then (Return (), s\<lparr>act_non_blocking := True, gs_timeout := Some 0\<rparr>)
          else (Return (), s\<lparr>act_non_blocking := False, gs_timeout := Some f\<rparr>))"

text \<open>
  \<^verbatim>\<open>GreenSocket._trampoline\<close>: a wrapper already marked closed raises without reaching the
  hub; otherwise the hub is asked (one \<open>Trampoline\<close> call in the trace, one outcome taken
  from the hub's script), and a closed signal marks the wrapper before it is re-raised.
  With the hub's script used up the wait has not ended: the result is \<open>None\<close>.
\<close>

definition GreenSocket_trampoline ::
  "green_socket \<Rightarrow> int \<Rightarrow> bool \<Rightarrow> bool \<Rightarrow> real option \<Rightarrow> exn option \<Rightarrow> hub_outcome list
     \<Rightarrow> unit result option \<times> green_socket \<times> call list \<times> hub_outcome list" where
  "GreenSocket_trampoline s fd rd wr tmo texc hub =
     (if gs_closed s then (Some (Raise IOClosed), s, [], hub)
      else
        (case hub of
           [] \<Rightarrow> (None, s, [Trampoline fd rd wr tmo texc], [])
         | h # hub' \<Rightarrow>
             (case trampoline fd rd wr tmo texc h of
                Return u \<Rightarrow> (Some (Return u), s, [Trampoline fd rd wr tmo texc], hub')
              | Raise e \<Rightarrow>
                  if e = IOClosed
                  then (Some (Raise e), mark_as_closed s, [Trampoline fd rd wr tmo texc], hub')
                  else (Some (Raise e), s, [Trampoline fd rd wr tmo texc], hub'))))"

text \<open>Calls made before a continuation come first in its trace.\<close>

fun emit :: "call list \<Rightarrow> 'a \<times> 's \<times> call list \<Rightarrow> 'a \<times> 's \<times> call list" where
  "emit cs (r, s, tr) = (r, s, cs @ tr)"

text \<open>
  \<^verbatim>\<open>GreenSocket.recv\<close>. The OS socket's replies to the successive \<^verbatim>\<open>sock.recv\<close> calls are
  a script, the hub's outcomes another: a loop takes them in order, and one that has used
  its script up has not returned (\<open>None\<close>).
\<close>

fun GreenSocket_recv ::
  "green_socket \<Rightarrow> nat \<Rightarrow> int \<Rightarrow> string result list \<Rightarrow> hub_outcome list
     \<Rightarrow> string result option \<times> green_socket \<times> call list" where
  "GreenSocket_recv s buflen flags [] hub = (None, s, [OsRecv buflen flags])"
| "GreenSocket_recv s buflen flags (r # os) hub =
     (if act_non_blocking s then (Some r, s, [OsRecv buflen flags])
      else
        (case r of
           Return d \<Rightarrow> (Some (Return d), s, [OsRecv buflen flags])
         | Raise e \<Rightarrow>
             if \<not> is_socket_error e then (Some (Raise e), s, [OsRecv buflen flags])
             else if errno_in (get_errno e) SOCKET_BLOCKING then
               (case GreenSocket_trampoline s (fileno s) True False (gettimeout s)
                       (Some (SocketTimeout [ArgStr ''timed out''])) hub of
                  (None, s', tr, hub') \<Rightarrow> (None, s', OsRecv buflen flags # tr)
                | (Some (Raise x), s', tr, hub') \<Rightarrow>
                    (Some (Raise (if x = IOClosed then EOFError else x)), s',
                     OsRecv buflen flags # tr)
                | (Some (Return u), s', tr, hub') \<Rightarrow>
                    emit (OsRecv buflen flags # tr) (GreenSocket_recv s' buflen flags os hub'))
             else if errno_in (get_errno e) SOCKET_CLOSED then
               (Some (Return []), s, [OsRecv buflen flags])
             else (Some (Raise e), s, [OsRecv buflen flags])))"

text \<open>
  \<^verbatim>\<open>GreenSocket._old_send\<close>, the active \<^verbatim>\<open>send\<close>: the loop of the suspending mode, with
  \<^verbatim>\<open>total_sent\<close> as an argument.
\<close>

fun old_send_loop ::
  "green_socket \<Rightarrow> string \<Rightarrow> int \<Rightarrow> nat \<Rightarrow> nat result list \<Rightarrow> hub_outcome list
     \<Rightarrow> nat result option \<times> green_socket \<times> call list" where
  "old_send_loop s data flags total_sent [] hub =
     (None, s, [OsSend (drop total_sent data) flags])"
| "old_send_loop s data flags total_sent (r # os) hub =
     (case (case r of
              Return n \<Rightarrow> Return (total_sent + n)
            | Raise e \<Rightarrow>
                if is_socket_error e \<and> errno_in (get_errno e) SOCKET_BLOCKING
                then Return total_sent else Raise e) of
        Raise e \<Rightarrow> (Some (Raise e), s, [OsSend (drop total_sent data) flags])
      | Return sent \<Rightarrow>
          if sent = length data
          then (Some (Return sent), s, [OsSend (drop total_sent data) flags])
          else
            (case GreenSocket_trampoline s (fileno s) False True (gettimeout s)
                    (Some (SocketTimeout [ArgStr ''timed out''])) hub of
               (None, s', tr, hub') \<Rightarrow> (None, s', OsSend (drop total_sent data) flags # tr)
             | (Some (Raise x), s', tr, hub') \<Rightarrow>
                 (Some (Raise (if x = IOClosed
                               then OSError [ArgInt ECONNRESET,
                                             ArgStr ''Connection closed by another thread'']
                               else x)), s',
                  OsSend (drop total_sent data) flags # tr)
             | (Some (Return u), s', tr, hub') \<Rightarrow>
                 emit (OsSend (drop total_sent data) flags # tr)
                   (old_send_loop s' data flags sent os hub')))"

definition GreenSocket_send ::
  "green_socket \<Rightarrow> string \<Rightarrow> int \<Rightarrow> nat result list \<Rightarrow> hub_outcome list
     \<Rightarrow> nat result option \<times> green_socket \<times> call list" where
  "GreenSocket_send s data flags os hub =
     (if act_non_blocking s then
        (case os of
           [] \<Rightarrow> (None, s, [OsSend data flags])
         | r # os' \<Rightarrow> (Some r, s, [OsSend data flags]))
      else old_send_loop s data flags 0 os hub)"

text \<open>
  \<^verbatim>\<open>socket_connect\<close> and \<^verbatim>\<open>socket_checkerr\<close>, applied to the OS socket's reply to
  \<^verbatim>\<open>connect_ex\<close> and to \<^verbatim>\<open>getsockopt(SOL_SOCKET, SO_ERROR)\<close>. \<open>True\<close> stands for the socket
  that \<^verbatim>\<open>socket_connect\<close> returns, \<open>False\<close> for its \<^verbatim>\<open>None\<close>. The table \<^verbatim>\<open>errno.errorcode\<close>
  of the standard library is the parameter \<open>errorcode\<close>; a code it lacks is a \<^verbatim>\<open>KeyError\<close>.
\<close>

definition raise_socket_error :: "(int \<rightharpoonup> string) \<Rightarrow> int \<Rightarrow> exn" where
  "raise_socket_error errorcode err =
     (case errorcode err of
        None \<Rightarrow> KeyError err
      | Some name \<Rightarrow> OSError [ArgInt err, ArgStr name])"

definition socket_connect :: "(int \<rightharpoonup> string) \<Rightarrow> int result \<Rightarrow> bool result" where
  "socket_connect errorcode reply =
     (case reply of
        Raise e \<Rightarrow> Raise e
      | Return err \<Rightarrow>
          if err \<in> CONNECT_ERR then Return False
          else if err \<notin> CONNECT_SUCCESS then Raise (raise_socket_error errorcode err)
          else Return True)"

definition socket_checkerr :: "(int \<rightharpoonup> string) \<Rightarrow> int result \<Rightarrow> unit result" where
  "socket_checkerr errorcode reply =
     (case reply of
        Raise e \<Rightarrow> Raise e
      | Return err \<Rightarrow>
          if err \<notin> CONNECT_SUCCESS then Raise (raise_socket_error errorcode err)
          else Return ())"

text \<open>
  \<^verbatim>\<open>GreenSocket.connect\<close>. \<open>direct\<close> is the OS socket's reply to \<^verbatim>\<open>sock.connect\<close> (the
  non-suspending mode), \<open>os\<close> its replies to \<^verbatim>\<open>connect_ex\<close> and \<^verbatim>\<open>getsockopt\<close> in the order
  of the calls. \<open>clock k\<close> is what the \<open>k\<close>-th call of \<^verbatim>\<open>time.time()\<close> returns.
\<close>

fun connect_forever ::
  "(int \<rightharpoonup> string) \<Rightarrow> green_socket \<Rightarrow> string \<Rightarrow> int result list \<Rightarrow> hub_outcome list
     \<Rightarrow> unit result option \<times> green_socket \<times> call list" where
  "connect_forever ec s address [] hub = (None, s, [OsConnectEx address])"
| "connect_forever ec s address (r # os) hub =
     (case socket_connect ec r of
        Raise e \<Rightarrow> (Some (Raise e), s, [OsConnectEx address])
      | Return True \<Rightarrow> (Some (Return ()), s, [OsConnectEx address])
      | Return False \<Rightarrow>
          (case GreenSocket_trampoline s (fileno s) False True None None hub of
             (None, s', tr, hub') \<Rightarrow> (None, s', OsConnectEx address # tr)
           | (Some (Raise x), s', tr, hub') \<Rightarrow>
               (Some (Raise (if x = IOClosed then OSError [ArgInt EBADFD] else x)), s',
                OsConnectEx address # tr)
           | (Some (Return u), s', tr, hub') \<Rightarrow>
               (case os of
                  [] \<Rightarrow> (None, s', OsConnectEx address # tr @ [OsGetsockoptSoError])
                | c # os' \<Rightarrow>
                    (case socket_checkerr ec c of
                       Raise e \<Rightarrow>
                         (Some (Raise e), s', OsConnectEx address # tr @ [OsGetsockoptSoError])
                     | Return v \<Rightarrow>
                         emit (OsConnectEx address # tr @ [OsGetsockoptSoError])
                           (connect_forever ec s' address os' hub')))))"

fun connect_until ::
  "(int \<rightharpoonup> string) \<Rightarrow> green_socket \<Rightarrow> string \<Rightarrow> real \<Rightarrow> (nat \<Rightarrow> real) \<Rightarrow> nat
     \<Rightarrow> int result list \<Rightarrow> hub_outcome list
     \<Rightarrow> unit result option \<times> green_socket \<times> call list" where
  "connect_until ec s address endt clock k [] hub = (None, s, [OsConnectEx address])"
| "connect_until ec s address endt clock k (r # os) hub =
     (case socket_connect ec r of
        Raise e \<Rightarrow> (Some (Raise e), s, [OsConnectEx address])
      | Return True \<Rightarrow> (Some (Return ()), s, [OsConnectEx address])
      | Return False \<Rightarrow>
          if clock k \<ge> endt
          then (Some (Raise (SocketTimeout [ArgStr ''timed out''])), s, [OsConnectEx address])
          else
            (case GreenSocket_trampoline s (fileno s) False True (Some (endt - clock (k + 1)))
                    (Some (SocketTimeout [ArgStr ''timed out''])) hub of
               (None, s', tr, hub') \<Rightarrow> (None, s', OsConnectEx address # tr)
             | (Some (Raise x), s', tr, hub') \<Rightarrow>
                 (Some (Raise (if x = IOClosed then OSError [ArgInt EBADFD] else x)), s',
                  OsConnectEx address # tr)
             | (Some (Return u), s', tr, hub') \<Rightarrow>
                 (case os of
                    [] \<Rightarrow> (None, s', OsConnectEx address # tr @ [OsGetsockoptSoError])
                  | c # os' \<Rightarrow>
                      (case socket_checkerr ec c of
                         Raise e \<Rightarrow>
                           (Some (Raise e), s',
                            OsConnectEx address # tr @ [OsGetsockoptSoError])
                       | Return v \<Rightarrow>
                           emit (OsConnectEx address # tr @ [OsGetsockoptSoError])
                             (connect_until ec s' address endt clock (k + 2) os' hub')))))"

definition GreenSocket_connect ::
  "(int \<rightharpoonup> string) \<Rightarrow> green_socket \<Rightarrow> string \<Rightarrow> unit result list \<Rightarrow> (nat \<Rightarrow> real)
     \<Rightarrow> int result list \<Rightarrow> hub_outcome list
     \<Rightarrow> unit result option \<times> green_socket \<times> call list" where
  "GreenSocket_connect ec s address direct clock os hub =
     (if act_non_blocking s then
        (case direct of
           [] \<Rightarrow> (None, s, [OsConnect address])
         | r # rs \<Rightarrow> (Some r, s, [OsConnect address]))
      else
        (case gettimeout s of
           None \<Rightarrow> connect_forever ec s address os hub
         | Some t \<Rightarrow> connect_until ec s address (clock 0 + t) clock 1 os hub))"

text \<open>
  \<^verbatim>\<open>GreenSocket.connect_ex\<close>. It returns a Python value: an integer, or \<^verbatim>\<open>None\<close> where the
  function body ends without a \<^verbatim>\<open>return\<close>. \<open>connect_ex_handlers\<close> is the pair of
  \<^verbatim>\<open>except\<close> clauses both loops share: \<^verbatim>\<open>socket.error\<close> first, then \<^verbatim>\<open>IOClosed\<close>;
  anything else propagates.
\<close>

definition connect_ex_handlers :: "exn \<Rightarrow> int option result" where
  "connect_ex_handlers ex =
     (if is_socket_error ex then Return (get_errno ex)
      else if ex = IOClosed then Return (Some EBADFD)
      else Raise ex)"

fun connect_ex_forever ::
  "(int \<rightharpoonup> string) \<Rightarrow> green_socket \<Rightarrow> string \<Rightarrow> int result list \<Rightarrow> hub_outcome list
     \<Rightarrow> int option result option \<times> green_socket \<times> call list" where
  "connect_ex_forever ec s address [] hub = (None, s, [OsConnectEx address])"
| "connect_ex_forever ec s address (r # os) hub =
     (case socket_connect ec r of
        Raise e \<Rightarrow> (Some (Raise e), s, [OsConnectEx address])
      | Return True \<Rightarrow> (Some (Return None), s, [OsConnectEx address])
      | Return False \<Rightarrow>
          (case GreenSocket_trampoline s (fileno s) False True None None hub of
             (None, s', tr, hub') \<Rightarrow> (None, s', OsConnectEx address # tr)
           | (Some (Raise x), s', tr, hub') \<Rightarrow>
               (Some (connect_ex_handlers x), s', OsConnectEx address # tr)
           | (Some (Return u), s', tr, hub') \<Rightarrow>
               (case os of
                  [] \<Rightarrow> (None, s', OsConnectEx address # tr @ [OsGetsockoptSoError])
                | c # os' \<Rightarrow>
                    (case socket_checkerr ec c of
                       Raise e \<Rightarrow>
                         (Some (connect_ex_handlers e), s',
                          OsConnectEx address # tr @ [OsGetsockoptSoError])
                     | Return v \<Rightarrow>
                         emit (OsConnectEx address # tr @ [OsGetsockoptSoError])
                           (connect_ex_forever ec s' address os' hub')))))"

fun connect_ex_until ::
  "(int \<rightharpoonup> string) \<Rightarrow> green_socket \<Rightarrow> string \<Rightarrow> real \<Rightarrow> (nat \<Rightarrow> real) \<Rightarrow> nat
     \<Rightarrow> int result list \<Rightarrow> hub_outcome list
     \<Rightarrow> int option result option \<times> green_socket \<times> call list" where
  "connect_ex_until ec s address endt clock k [] hub = (None, s, [OsConnectEx address])"
| "connect_ex_until ec s address endt clock k (r # os) hub =
     (case socket_connect ec r of
        Raise e \<Rightarrow> (Some (connect_ex_handlers e), s, [OsConnectEx address])
      | Return True \<Rightarrow> (Some (Return (Some 0)), s, [OsConnectEx address])
      | Return False \<Rightarrow>
          if clock k \<ge> endt
          then (Some (connect_ex_handlers (SocketTimeout [ArgInt EAGAIN])), s,
                [OsConnectEx address])
          else
            (case GreenSocket_trampoline s (fileno s) False True (Some (endt - clock (k + 1)))
                    (Some (SocketTimeout [ArgInt EAGAIN])) hub of
               (None, s', tr, hub') \<Rightarrow> (None, s', OsConnectEx address # tr)
             | (Some (Raise x), s', tr, hub') \<Rightarrow>
                 (Some (connect_ex_handlers x), s', OsConnectEx address # tr)
             | (Some (Return u), s', tr, hub') \<Rightarrow>
                 (case os of
                    [] \<Rightarrow> (None, s', OsConnectEx address # tr @ [OsGetsockoptSoError])
                  | c # os' \<Rightarrow>
                      (case socket_checkerr ec c of
                         Raise e \<Rightarrow>
                           (Some (connect_ex_handlers e), s',
                            OsConnectEx address # tr @ [OsGetsockoptSoError])
                       | Return v \<Rightarrow>
                           emit (OsConnectEx address # tr @ [OsGetsockoptSoError])
                             (connect_ex_until ec s' address endt clock (k + 2) os' hub')))))"

definition GreenSocket_connect_ex ::
  "(int \<rightharpoonup> string) \<Rightarrow> green_socket \<Rightarrow> string \<Rightarrow> (nat \<Rightarrow> real)
     \<Rightarrow> int result list \<Rightarrow> hub_outcome list
     \<Rightarrow> int option result option \<times> green_socket \<times> call list" where
  "GreenSocket_connect_ex ec s address clock os hub =
     (if act_non_blocking s then
        (case os of
           [] \<Rightarrow> (None, s, [OsConnectEx address])
         | r # rs \<Rightarrow>
             (Some (case r of Return n \<Rightarrow> Return (Some n) | Raise e \<Rightarrow> Raise e), s,
              [OsConnectEx address]))
      else
        (case gettimeout s of
           None \<Rightarrow> connect_ex_forever ec s address os hub
         | Some t \<Rightarrow> connect_ex_until ec s address (clock 0 + t) clock 1 os hub))"

text \<open>
  \<^verbatim>\<open>set_nonblocking\<close> on a socket (which has \<^verbatim>\<open>setblocking\<close>), the constructor
  \<^verbatim>\<open>GreenSocket.__init__\<close> given an existing socket, \<^verbatim>\<open>socket_accept\<close> and
  \<^verbatim>\<open>GreenSocket.accept\<close>. \<open>dflt\<close> is what \<^verbatim>\<open>socket.getdefaulttimeout()\<close> returns; \<open>py_or\<close>
  is Python's \<^verbatim>\<open>or\<close> on timeouts, where \<^verbatim>\<open>None\<close> and \<^verbatim>\<open>0.0\<close> are false.
\<close>

definition set_nonblocking :: "os_socket \<Rightarrow> os_socket \<times> call list" where
  "set_nonblocking sk = (sk\<lparr>os_timeout := Some 0\<rparr>, [OsSetblocking (os_fileno sk) False])"

definition py_or :: "real option \<Rightarrow> real option \<Rightarrow> real option" where
  "py_or x y = (case x of None \<Rightarrow> y | Some t \<Rightarrow> if t = 0 then y else Some t)"

definition GreenSocket_init ::
  "real option \<Rightarrow> os_socket \<Rightarrow> bool \<Rightarrow> green_socket \<times> call list" where
  "GreenSocket_init dflt sk should_set_nonblocking =
     (let tmo = py_or (os_timeout sk) dflt;
          (sk', tr) = (if should_set_nonblocking then set_nonblocking sk else (sk, []))
      in (\<lparr>sock = sk', act_non_blocking = False, gs_timeout = tmo, gs_closed = False\<rparr>, tr))"

definition socket_accept ::
  "(os_socket \<times> string) result \<Rightarrow> (os_socket \<times> string) option result" where
  "socket_accept reply =
     (case reply of
        Return ca \<Rightarrow> Return (Some ca)
      | Raise e \<Rightarrow>
          if is_socket_error e \<and> get_errno e = Some EWOULDBLOCK then Return None
          else Raise e)"

datatype accepted = RawConn os_socket string | GreenConn green_socket string

fun accept_loop ::
  "real option \<Rightarrow> green_socket \<Rightarrow> (os_socket \<times> string) result list \<Rightarrow> hub_outcome list
     \<Rightarrow> accepted result option \<times> green_socket \<times> call list" where
  "accept_loop dflt s [] hub = (None, s, [OsAccept])"
| "accept_loop dflt s (r # os) hub =
     (case socket_accept r of
        Raise e \<Rightarrow> (Some (Raise e), s, [OsAccept])
      | Return (Some (client, addr)) \<Rightarrow>
          (let (client', tr1) = set_nonblocking client;
               (g, tr2) = GreenSocket_init dflt client' True
           in (Some (Return (GreenConn g addr)), s, OsAccept # tr1 @ tr2))
      | Return None \<Rightarrow>
          (case GreenSocket_trampoline s (fileno s) True False (gettimeout s)
                  (Some (SocketTimeout [ArgStr ''timed out''])) hub of
             (None, s', tr, hub') \<Rightarrow> (None, s', OsAccept # tr)
           | (Some (Raise x), s', tr, hub') \<Rightarrow> (Some (Raise x), s', OsAccept # tr)
           | (Some (Return u), s', tr, hub') \<Rightarrow>
               emit (OsAccept # tr) (accept_loop dflt s' os hub')))"

definition GreenSocket_accept ::
  "real option \<Rightarrow> green_socket \<Rightarrow> (os_socket \<times> string) result list \<Rightarrow> hub_outcome list
     \<Rightarrow> accepted result option \<times> green_socket \<times> call list" where
  "GreenSocket_accept dflt s os hub =
     (if act_non_blocking s then
        (case os of
           [] \<Rightarrow> (None, s, [OsAccept])
         | r # rs \<Rightarrow>
             (Some (case r of Return (c, a) \<Rightarrow> Return (RawConn c a) | Raise e \<Rightarrow> Raise e), s,
              [OsAccept]))
      else accept_loop dflt s os hub)"

text \<open>\<^verbatim>\<open>GreenSocket.sendto(*args)\<close>: \<open>os\<close> is the OS socket's reply to \<^verbatim>\<open>sock.sendto\<close>.\<close>

definition GreenSocket_sendto ::
  "green_socket \<Rightarrow> pyval list \<Rightarrow> nat result list \<Rightarrow> hub_outcome list
     \<Rightarrow> nat result option \<times> green_socket \<times> call list" where
  "GreenSocket_sendto s args os hub =
     (case GreenSocket_trampoline s (fileno s) False True None None hub of
        (None, s', tr, hub') \<Rightarrow> (None, s', tr)
      | (Some (Raise x), s', tr, hub') \<Rightarrow> (Some (Raise x), s', tr)
      | (Some (Return u), s', tr, hub') \<Rightarrow>
          (case os of
             [] \<Rightarrow> (None, s', tr @ [OsSendto args])
           | r # rs \<Rightarrow> (Some r, s', tr @ [OsSendto args])))"

section \<open>The hub registry (\<^verbatim>\<open>guv/hubs/hub.py\<close>)\<close>

text \<open>
  The thread-local object \<^verbatim>\<open>_threadlocal\<close> of one thread. An attribute may be absent
  (\<open>None\<close>); the attribute \<^verbatim>\<open>Hub\<close>, when present, holds a Python value that may itself be
  \<^verbatim>\<open>None\<close>. \<open>tl_built\<close> counts the hub instances constructed so far in the thread: it
  numbers them, and is no attribute of the source.
\<close>

record threadlocal =
  tl_Hub :: "pyobj option option"
  tl_hub :: "hub_instance option"
  tl_built :: nat

text \<open>
  \<^verbatim>\<open>get_default_hub\<close>. \<open>import_module\<close> is \<^verbatim>\<open>importlib.import_module\<close> in the running
  environment: the module, or the exception the import raises.
\<close>

fun get_default_hub_names :: "(string \<Rightarrow> pyobj result) \<Rightarrow> string list \<Rightarrow> pyobj option result" where
  "get_default_hub_names import_module [] = Return None"
| "get_default_hub_names import_module (name # names) =
     (case import_module (''guv.hubs.'' @ name) of
        Return m \<Rightarrow> Return (Some m)
      | Raise e \<Rightarrow>
          if e = ImportError then get_default_hub_names import_module names else Raise e)"

definition get_default_hub :: "(string \<Rightarrow> pyobj result) \<Rightarrow> pyobj option result" where
  "get_default_hub import_module = get_default_hub_names import_module [''pyuv'', ''epoll'']"

definition use_hub ::
  "(string \<Rightarrow> pyobj result) \<Rightarrow> pyobj option \<Rightarrow> threadlocal \<Rightarrow> unit result \<times> threadlocal" where
  "use_hub import_module backend loc =
     (case (case backend of None \<Rightarrow> get_default_hub import_module | Some m \<Rightarrow> Return (Some m)) of
        Raise e \<Rightarrow> (Raise e, loc)
      | Return b \<Rightarrow>
          (let loc1 = loc\<lparr>tl_hub := None\<rparr>
           in (Return (),
               (case b of
                  None \<Rightarrow> loc1\<lparr>tl_Hub := Some None\<rparr>
                | Some m \<Rightarrow>
                    (case Hub_attr m of
                       Some h \<Rightarrow> loc1\<lparr>tl_Hub := Some (Some h)\<rparr>
                     | None \<Rightarrow> loc1\<lparr>tl_Hub := Some (Some m)\<rparr>)))))"

text \<open>
  Calling the stored type, \<^verbatim>\<open>_threadlocal.Hub()\<close>: a constructible object gives a new
  instance; \<^verbatim>\<open>None\<close> and an object that cannot be called raise \<^verbatim>\<open>TypeError\<close>.
\<close>

definition call_Hub :: "pyobj option \<Rightarrow> nat \<Rightarrow> hub_instance result" where
  "call_Hub c n =
     (case c of
        None \<Rightarrow> Raise (TypeError ''object is not callable'')
      | Some t \<Rightarrow>
          if constructible t then Return (HubInstance t n)
          else Raise (TypeError ''object is not callable''))"

definition get_hub ::
  "(string \<Rightarrow> pyobj result) \<Rightarrow> threadlocal \<Rightarrow> hub_instance result \<times> threadlocal" where
  "get_hub import_module loc =
     (case tl_hub loc of
        Some hub \<Rightarrow> (Return hub, loc)
      | None \<Rightarrow>
          (case (case tl_Hub loc of
                   Some c \<Rightarrow> (Return (), loc)
                 | None \<Rightarrow> use_hub import_module None loc) of
             (Raise e, loc1) \<Rightarrow> (Raise e, loc1)
           | (Return u, loc1) \<Rightarrow>
               (case tl_Hub loc1 of
                  None \<Rightarrow> (Raise (AttributeError ''Hub''), loc1)
                | Some c \<Rightarrow>
                    (case call_Hub c (tl_built loc1) of
                       Raise e \<Rightarrow> (Raise e, loc1)
                     | Return hub \<Rightarrow>
                         (Return hub,
                          loc1\<lparr>tl_hub := Some hub, tl_built := Suc (tl_built loc1)\<rparr>)))))"

text \<open>
  \<^verbatim>\<open>notify_close\<close> and \<^verbatim>\<open>notify_opened\<close>: the hub's own methods \<^verbatim>\<open>notify_close\<close> and
  \<^verbatim>\<open>mark_as_reopened\<close> belong to the backend; the call is recorded.
\<close>

definition notify_close ::
  "(string \<Rightarrow> pyobj result) \<Rightarrow> int \<Rightarrow> threadlocal \<Rightarrow> unit result \<times> threadlocal \<times> call list" where
  "notify_close import_module fd loc =
     (case get_hub import_module loc of
        (Raise e, loc') \<Rightarrow> (Raise e, loc', [])
      | (Return hub, loc') \<Rightarrow> (Return (), loc', [HubNotifyClose hub fd]))"

definition notify_opened ::
  "(string \<Rightarrow> pyobj result) \<Rightarrow> int \<Rightarrow> threadlocal \<Rightarrow> unit result \<times> threadlocal \<times> call list" where
  "notify_opened import_module fd loc =
     (case get_hub import_module loc of
        (Raise e, loc') \<Rightarrow> (Raise e, loc', [])
      | (Return hub, loc') \<Rightarrow> (Return (), loc', [HubMarkAsReopened hub fd]))"

section \<open>The descriptor adapter \<^verbatim>\<open>_SocketDuckForFd\<close>\<close>

record socket_duck =
  d_fileno :: int
  d_closed :: bool
  d_refcount :: int

text \<open>
  \<^verbatim>\<open>__init__\<close>: the hub is told of the descriptor before \<^verbatim>\<open>_closed\<close> is set; if that
  raises there is no object. \<^verbatim>\<open>_refcount\<close> is the class attribute \<open>0\<close>.
\<close>

definition SocketDuckForFd_init ::
  "(string \<Rightarrow> pyobj result) \<Rightarrow> int \<Rightarrow> threadlocal
     \<Rightarrow> socket_duck result \<times> threadlocal \<times> call list" where
  "SocketDuckForFd_init import_module fd loc =
     (case notify_opened import_module fd loc of
        (Raise e, loc', tr) \<Rightarrow> (Raise e, loc', tr)
      | (Return u, loc', tr) \<Rightarrow>
          (Return \<lparr>d_fileno = fd, d_closed = False, d_refcount = 0\<rparr>, loc', tr))"

definition duck_mark_as_closed :: "socket_duck \<Rightarrow> socket_duck" where
  "duck_mark_as_closed d = d\<lparr>d_closed := True\<rparr>"

definition SocketDuckForFd_trampoline ::
  "socket_duck \<Rightarrow> int \<Rightarrow> bool \<Rightarrow> bool \<Rightarrow> real option \<Rightarrow> exn option \<Rightarrow> hub_outcome list
     \<Rightarrow> unit result option \<times> socket_duck \<times> call list \<times> hub_outcome list" where
  "SocketDuckForFd_trampoline d fd rd wr tmo texc hub =
     (if d_closed d then (Some (Raise IOClosed), d, [], hub)
      else
        (case hub of
           [] \<Rightarrow> (None, d, [Trampoline fd rd wr tmo texc], [])
         | h # hub' \<Rightarrow>
             (case trampoline fd rd wr tmo texc h of
                Return u \<Rightarrow> (Some (Return u), d, [Trampoline fd rd wr tmo texc], hub')
              | Raise e \<Rightarrow>
                  if e = IOClosed
                  then (Some (Raise e), duck_mark_as_closed d, [Trampoline fd rd wr tmo texc],
                        hub')
                  else (Some (Raise e), d, [Trampoline fd rd wr tmo texc], hub'))))"

text \<open>
  \<^verbatim>\<open>recv\<close>, \<^verbatim>\<open>send\<close> and \<^verbatim>\<open>sendall\<close>: \<open>os\<close> holds the replies of \<^verbatim>\<open>os.read\<close>, respectively
  \<^verbatim>\<open>os.write\<close>. \<^verbatim>\<open>send\<close> calls the module's \<^verbatim>\<open>trampoline\<close>, not \<^verbatim>\<open>self._trampoline\<close>.
\<close>

fun SocketDuckForFd_recv ::
  "socket_duck \<Rightarrow> nat \<Rightarrow> string result list \<Rightarrow> hub_outcome list
     \<Rightarrow> string result option \<times> socket_duck \<times> call list" where
  "SocketDuckForFd_recv d buflen [] hub = (None, d, [OsRead (d_fileno d) buflen])"
| "SocketDuckForFd_recv d buflen (r # os) hub =
     (case r of
        Return data \<Rightarrow> (Some (Return data), d, [OsRead (d_fileno d) buflen])
      | Raise e \<Rightarrow>
          if \<not> is_socket_error e then (Some (Raise e), d, [OsRead (d_fileno d) buflen])
          else if \<not> errno_in (get_errno e) SOCKET_BLOCKING
          then (Some (Raise (IOError_of e)), d, [OsRead (d_fileno d) buflen])
          else
            (case SocketDuckForFd_trampoline d (d_fileno d) True False None None hub of
               (None, d', tr, hub') \<Rightarrow> (None, d', OsRead (d_fileno d) buflen # tr)
             | (Some (Raise x), d', tr, hub') \<Rightarrow>
                 (Some (Raise x), d', OsRead (d_fileno d) buflen # tr)
             | (Some (Return u), d', tr, hub') \<Rightarrow>
                 emit (OsRead (d_fileno d) buflen # tr)
                   (SocketDuckForFd_recv d' buflen os hub')))"

fun SocketDuckForFd_send ::
  "socket_duck \<Rightarrow> string \<Rightarrow> nat result list \<Rightarrow> hub_outcome list
     \<Rightarrow> nat result option \<times> socket_duck \<times> call list" where
  "SocketDuckForFd_send d data [] hub = (None, d, [OsWrite (d_fileno d) data])"
| "SocketDuckForFd_send d data (r # os) hub =
     (case r of
        Return n \<Rightarrow> (Some (Return n), d, [OsWrite (d_fileno d) data])
      | Raise e \<Rightarrow>
          if \<not> is_socket_error e then (Some (Raise e), d, [OsWrite (d_fileno d) data])
          else if \<not> errno_in (get_errno e) SOCKET_BLOCKING
          then (Some (Raise (IOError_of e)), d, [OsWrite (d_fileno d) data])
          else
            (case hub of
               [] \<Rightarrow>
                 (None, d,
                  [OsWrite (d_fileno d) data, Trampoline (d_fileno d) False True None None])
             | h # hub' \<Rightarrow>
                 (case trampoline (d_fileno d) False True None None h of
                    Raise x \<Rightarrow>
                      (Some (Raise x), d,
                       [OsWrite (d_fileno d) data, Trampoline (d_fileno d) False True None None])
                  | Return u \<Rightarrow>
                      emit [OsWrite (d_fileno d) data,
                            Trampoline (d_fileno d) False True None None]
                        (SocketDuckForFd_send d data os hub'))))"

text \<open>One \<^verbatim>\<open>os.write\<close> of \<^verbatim>\<open>sendall\<close> with its \<^verbatim>\<open>except OSError\<close> clause: the new total.\<close>

definition sendall_write :: "nat \<Rightarrow> nat result \<Rightarrow> nat result" where
  "sendall_write total_sent r =
     (case r of
        Return n \<Rightarrow> Return (total_sent + n)
      | Raise e \<Rightarrow>
          if \<not> is_socket_error e then Raise e
          else if get_errno e \<noteq> Some EAGAIN then Raise (IOError_of e)
          else Return total_sent)"

fun sendall_loop ::
  "socket_duck \<Rightarrow> string \<Rightarrow> nat \<Rightarrow> nat result list \<Rightarrow> hub_outcome list
     \<Rightarrow> unit result option \<times> socket_duck \<times> call list" where
  "sendall_loop d data total_sent os hub =
     (if total_sent < length data then
        (case SocketDuckForFd_trampoline d (d_fileno d) False True None None hub of
           (None, d', tr, hub') \<Rightarrow> (None, d', tr)
         | (Some (Raise x), d', tr, hub') \<Rightarrow> (Some (Raise x), d', tr)
         | (Some (Return u), d', tr, hub') \<Rightarrow>
             (case os of
                [] \<Rightarrow> (None, d', tr @ [OsWrite (d_fileno d) (drop total_sent data)])
              | r # os' \<Rightarrow>
                  (case sendall_write total_sent r of
                     Raise e \<Rightarrow>
                       (Some (Raise e), d', tr @ [OsWrite (d_fileno d) (drop total_sent data)])
                   | Return sent \<Rightarrow>
                       emit (tr @ [OsWrite (d_fileno d) (drop total_sent data)])
                         (sendall_loop d' data sent os' hub'))))
      else (Some (Return ()), d, []))"

definition SocketDuckForFd_sendall ::
  "socket_duck \<Rightarrow> string \<Rightarrow> nat result list \<Rightarrow> hub_outcome list
     \<Rightarrow> unit result option \<times> socket_duck \<times> call list" where
  "SocketDuckForFd_sendall d data os hub =
     (case os of
        [] \<Rightarrow> (None, d, [OsWrite (d_fileno d) data])
      | r # os' \<Rightarrow>
          (case sendall_write 0 r of
             Raise e \<Rightarrow> (Some (Raise e), d, [OsWrite (d_fileno d) data])
           | Return sent \<Rightarrow>
               emit [OsWrite (d_fileno d) data] (sendall_loop d data sent os' hub)))"

text \<open>
  \<^verbatim>\<open>_close\<close>, \<^verbatim>\<open>_reuse\<close> and \<^verbatim>\<open>_drop\<close>. Whatever \<^verbatim>\<open>os.close\<close> raises is swallowed by the bare
  \<^verbatim>\<open>except\<close>, so its reply is no input.
\<close>

definition SocketDuckForFd_close ::
  "(string \<Rightarrow> pyobj result) \<Rightarrow> socket_duck \<Rightarrow> threadlocal
     \<Rightarrow> unit result \<times> socket_duck \<times> threadlocal \<times> call list" where
  "SocketDuckForFd_close import_module d loc =
     (case notify_close import_module (d_fileno d) loc of
        (Raise e, loc', tr) \<Rightarrow> (Raise e, d, loc', tr)
      | (Return u, loc', tr) \<Rightarrow>
          (Return (), duck_mark_as_closed d, loc', tr @ [OsClose (d_fileno d)]))"

definition SocketDuckForFd_reuse :: "socket_duck \<Rightarrow> socket_duck" where
  "SocketDuckForFd_reuse d = d\<lparr>d_refcount := d_refcount d + 1\<rparr>"

definition SocketDuckForFd_drop ::
  "(string \<Rightarrow> pyobj result) \<Rightarrow> socket_duck \<Rightarrow> threadlocal
     \<Rightarrow> unit result \<times> socket_duck \<times> threadlocal \<times> call list" where
  "SocketDuckForFd_drop import_module d loc =
     (let d1 = d\<lparr>d_refcount := d_refcount d - 1\<rparr>
      in if d_refcount d1 = 0 then SocketDuckForFd_close import_module d1 loc
         else (Return (), d1, loc, []))"

text \<open>
  A caller's \<open>n\<close> calls of \<^verbatim>\<open>_reuse\<close>, and its \<open>n\<close> calls of \<^verbatim>\<open>_drop\<close> one after the other (an
  exception ends the sequence), with the calls they make.
\<close>

fun reuses :: "nat \<Rightarrow> socket_duck \<Rightarrow> socket_duck" where
  "reuses 0 d = d"
| "reuses (Suc n) d = reuses n (SocketDuckForFd_reuse d)"

fun drops ::
  "(string \<Rightarrow> pyobj result) \<Rightarrow> nat \<Rightarrow> socket_duck \<Rightarrow> threadlocal
     \<Rightarrow> unit result \<times> socket_duck \<times> threadlocal \<times> call list" where
  "drops import_module 0 d loc = (Return (), d, loc, [])"
| "drops import_module (Suc n) d loc =
     (case SocketDuckForFd_drop import_module d loc of
        (Raise e, d', loc', tr) \<Rightarrow> (Raise e, d', loc', tr)
      | (Return u, d', loc', tr) \<Rightarrow>
          (case drops import_module n d' loc' of
             (r, d'', loc'', tr') \<Rightarrow> (r, d'', loc'', tr @ tr')))"

section \<open>GreenPipe\<close>

text \<open>
  The pipe over its adapter. \<open>rbuf\<close> is the instance attribute \<^verbatim>\<open>_rbuf\<close>: its bytes
  \<^verbatim>\<open>self._rbuf.getvalue()\<close> if the instance has the attribute, \<open>None\<close> if it has not.
  \<^verbatim>\<open>_get_readahead_len\<close> reads it; no statement of \<^verbatim>\<open>greenio.py\<close> assigns it, and the base
  class \<^verbatim>\<open>socket.SocketIO\<close>, an unbuffered raw stream, has none, so a pipe as
  \<^verbatim>\<open>GreenPipe.__init__\<close> leaves it has \<open>rbuf = None\<close>. \<open>gp_attrs\<close> holds the names that
  \<^verbatim>\<open>close\<close> has set on the instance to \<^verbatim>\<open>_operation_on_closed_file\<close>: an instance
  attribute hides the method of the class.
\<close>

record green_pipe =
  gp_sock :: socket_duck
  rbuf :: "string option"
  gp_attrs :: "string set"

definition operation_on_closed_file :: "'a \<Rightarrow> 'b result" where
  "operation_on_closed_file args = Raise (ValueError ''I/O operation on closed file'')"

text \<open>
  A call \<^verbatim>\<open>pipe.name(args)\<close>: the instance attribute if \<^verbatim>\<open>close\<close> has set one, else the
  attribute \<open>cls name\<close> that the class and its bases give. (The interpreter's own use of
  \<^verbatim>\<open>__iter__\<close> and \<^verbatim>\<open>__next__\<close> in a \<^verbatim>\<open>for\<close> loop looks at the type, not the instance; it
  is no such call.)
\<close>

definition call_method ::
  "(string \<Rightarrow> 'a \<Rightarrow> green_pipe \<Rightarrow> 'b result) \<Rightarrow> green_pipe \<Rightarrow> string \<Rightarrow> 'a \<Rightarrow> 'b result" where
  "call_method cls p name args =
     (if name \<in> gp_attrs p then operation_on_closed_file args else cls name args p)"

definition closed_method_names :: "string list" where
  "closed_method_names =
     [''fileno'', ''flush'', ''isatty'', ''next'', ''read'', ''readinto'',
      ''readline'', ''readlines'', ''seek'', ''tell'', ''truncate'',
      ''write'', ''xreadlines'', ''__iter__'', ''__next__'', ''writelines'']"

definition setattr_closed :: "green_pipe \<Rightarrow> string \<Rightarrow> green_pipe" where
  "setattr_closed p method = p\<lparr>gp_attrs := insert method (gp_attrs p)\<rparr>"

text \<open>
  \<^verbatim>\<open>GreenPipe.close\<close>. \<open>base_close\<close> is \<^verbatim>\<open>socket.SocketIO.close\<close> of the standard library,
  reached through \<^verbatim>\<open>super()\<close>: if it raises, no attribute is set.
\<close>

definition GreenPipe_close ::
  "(green_pipe \<Rightarrow> unit result \<times> green_pipe) \<Rightarrow> green_pipe \<Rightarrow> unit result \<times> green_pipe" where
  "GreenPipe_close base_close p =
     (case base_close p of
        (Raise e, p') \<Rightarrow> (Raise e, p')
      | (Return u, p') \<Rightarrow> (Return (), foldl setattr_closed p' closed_method_names))"

text \<open>
  The file behind the descriptor, for a seekable backing store: \<^verbatim>\<open>os.lseek(fd, offset,
  whence)\<close> with \<^verbatim>\<open>whence\<close> 0, 1 or 2 moves the position and returns it; a negative target
  and any other \<^verbatim>\<open>whence\<close> are \<^verbatim>\<open>EINVAL\<close>.
\<close>

record os_file =
  f_pos :: int
  f_size :: int

definition os_lseek :: "os_file \<Rightarrow> int \<Rightarrow> int \<Rightarrow> int result \<times> os_file" where
  "os_lseek f offset whence =
     (let target =
            (if whence = 0 then Some offset
             else if whence = 1 then Some (f_pos f + offset)
             else if whence = 2 then Some (f_size f + offset)
             else None)
      in case target of
           None \<Rightarrow> (Raise (OSError [ArgInt EINVAL, ArgStr ''Invalid argument'']), f)
         | Some t \<Rightarrow>
             if t < 0 then (Raise (OSError [ArgInt EINVAL, ArgStr ''Invalid argument'']), f)
             else (Return t, f\<lparr>f_pos := t\<rparr>))"

text \<open>
  The calls \<^verbatim>\<open>self.flush()\<close>, \<^verbatim>\<open>self.fileno()\<close> and \<^verbatim>\<open>self.read(len)\<close> inside the methods.
  \<^verbatim>\<open>flush\<close> and \<^verbatim>\<open>read\<close> are methods of the base class in the standard library, so what
  they do is a parameter: \<open>fl\<close> for \<^verbatim>\<open>flush\<close>, \<open>rd\<close> for \<^verbatim>\<open>read\<close> (there the raw stream's
  read, which reaches \<^verbatim>\<open>_SocketDuckForFd.recv_into\<close> and \<^verbatim>\<open>os.read\<close>). \<^verbatim>\<open>fileno\<close> gives the
  adapter's descriptor.
\<close>

definition self_flush ::
  "(green_pipe \<Rightarrow> os_file \<Rightarrow> unit result \<times> green_pipe \<times> os_file \<times> call list)
     \<Rightarrow> green_pipe \<Rightarrow> os_file \<Rightarrow> unit result \<times> green_pipe \<times> os_file \<times> call list" where
  "self_flush fl p f =
     (if ''flush'' \<in> gp_attrs p then (operation_on_closed_file (), p, f, [])
      else fl p f)"

definition self_fileno :: "green_pipe \<Rightarrow> int result" where
  "self_fileno p =
     (if ''fileno'' \<in> gp_attrs p then operation_on_closed_file ()
      else Return (d_fileno (gp_sock p)))"

definition self_read ::
  "(green_pipe \<Rightarrow> os_file \<Rightarrow> nat \<Rightarrow> string result \<times> green_pipe \<times> os_file \<times> call list)
     \<Rightarrow> green_pipe \<Rightarrow> os_file \<Rightarrow> nat
     \<Rightarrow> string result \<times> green_pipe \<times> os_file \<times> call list" where
  "self_read rd p f n =
     (if ''read'' \<in> gp_attrs p then (operation_on_closed_file n, p, f, [])
      else rd p f n)"

text \<open>
  \<^verbatim>\<open>_get_readahead_len\<close>: \<^verbatim>\<open>len(self._rbuf.getvalue())\<close>, an \<^verbatim>\<open>AttributeError\<close> when the
  instance has no \<^verbatim>\<open>_rbuf\<close>. \<^verbatim>\<open>_clear_readahead_buf\<close> reads that many bytes when the length
  is positive.
\<close>

definition get_readahead_len :: "green_pipe \<Rightarrow> int result" where
  "get_readahead_len p =
     (case rbuf p of
        None \<Rightarrow> Raise (AttributeError ''_rbuf'')
      | Some b \<Rightarrow> Return (int (length b)))"

definition clear_readahead_buf ::
  "(green_pipe \<Rightarrow> os_file \<Rightarrow> nat \<Rightarrow> string result \<times> green_pipe \<times> os_file \<times> call list)
     \<Rightarrow> green_pipe \<Rightarrow> os_file \<Rightarrow> unit result \<times> green_pipe \<times> os_file \<times> call list" where
  "clear_readahead_buf rd p f =
     (case get_readahead_len p of
        Raise e \<Rightarrow> (Raise e, p, f, [])
      | Return len \<Rightarrow>
          if len > 0 then
            (case self_read rd p f (nat len) of
               (Raise e, p', f', tr) \<Rightarrow> (Raise e, p', f', tr)
             | (Return d, p', f', tr) \<Rightarrow> (Return (), p', f', tr))
          else (Return (), p, f, []))"

text \<open>
  \<^verbatim>\<open>GreenPipe.tell\<close> and \<^verbatim>\<open>GreenPipe.seek\<close>. In \<^verbatim>\<open>tell\<close> the \<^verbatim>\<open>try\<close> holds
  \<^verbatim>\<open>os.lseek(self.fileno(), 0, 1) - self._get_readahead_len()\<close>: the \<^verbatim>\<open>lseek\<close> is made
  before the length is asked for, an \<^verbatim>\<open>OSError\<close> is raised again as \<^verbatim>\<open>IOError(*e.args)\<close>,
  and any other exception passes. In \<^verbatim>\<open>seek\<close> the adjustment
  \<^verbatim>\<open>offset -= self._get_readahead_len()\<close> stands before the \<^verbatim>\<open>try\<close>, and
  \<^verbatim>\<open>_clear_readahead_buf\<close> in its \<^verbatim>\<open>else\<close>, after the \<^verbatim>\<open>lseek\<close> has moved the position.
\<close>

definition GreenPipe_tell ::
  "(green_pipe \<Rightarrow> os_file \<Rightarrow> unit result \<times> green_pipe \<times> os_file \<times> call list)
     \<Rightarrow> green_pipe \<Rightarrow> os_file \<Rightarrow> int result \<times> green_pipe \<times> os_file \<times> call list" where
  "GreenPipe_tell fl p f =
     (case self_flush fl p f of
        (Raise e, p1, f1, tr) \<Rightarrow> (Raise e, p1, f1, tr)
      | (Return u, p1, f1, tr) \<Rightarrow>
          (case self_fileno p1 of
             Raise e \<Rightarrow> (Raise (if is_socket_error e then IOError_of e else e), p1, f1, tr)
           | Return fd \<Rightarrow>
               (case os_lseek f1 0 1 of
                  (Raise e, f2) \<Rightarrow>
                    (Raise (if is_socket_error e then IOError_of e else e), p1, f2,
                     tr @ [OsLseek fd 0 1])
                | (Return pos, f2) \<Rightarrow>
                    (case get_readahead_len p1 of
                       Raise e \<Rightarrow>
                         (Raise (if is_socket_error e then IOError_of e else e), p1, f2,
                          tr @ [OsLseek fd 0 1])
                     | Return len \<Rightarrow>
                         (Return (pos - len), p1, f2, tr @ [OsLseek fd 0 1])))))"

definition self_tell ::
  "(green_pipe \<Rightarrow> os_file \<Rightarrow> unit result \<times> green_pipe \<times> os_file \<times> call list)
     \<Rightarrow> green_pipe \<Rightarrow> os_file \<Rightarrow> int result \<times> green_pipe \<times> os_file \<times> call list" where
  "self_tell fl p f =
     (if ''tell'' \<in> gp_attrs p then (operation_on_closed_file (), p, f, [])
      else GreenPipe_tell fl p f)"

definition GreenPipe_seek ::
  "(green_pipe \<Rightarrow> os_file \<Rightarrow> unit result \<times> green_pipe \<times> os_file \<times> call list)
     \<Rightarrow> (green_pipe \<Rightarrow> os_file \<Rightarrow> nat \<Rightarrow> string result \<times> green_pipe \<times> os_file \<times> call list)
     \<Rightarrow> green_pipe \<Rightarrow> os_file \<Rightarrow> int \<Rightarrow> int
     \<Rightarrow> int result \<times> green_pipe \<times> os_file \<times> call list" where
  "GreenPipe_seek fl rd p f offset whence =
     (case self_flush fl p f of
        (Raise e, p1, f1, tr) \<Rightarrow> (Raise e, p1, f1, tr)
      | (Return u, p1, f1, tr) \<Rightarrow>
          if whence = 1 \<and> offset = 0 then
            (case self_tell fl p1 f1 of (r, p2, f2, tr2) \<Rightarrow> (r, p2, f2, tr @ tr2))
          else
            (case (if whence = 1
                   then (case get_readahead_len p1 of
                           Raise e \<Rightarrow> Raise e
                         | Return len \<Rightarrow> Return (offset - len))
                   else Return offset) of
               Raise e \<Rightarrow> (Raise e, p1, f1, tr)
             | Return offset' \<Rightarrow>
                 (case self_fileno p1 of
                    Raise e \<Rightarrow>
                      (Raise (if is_socket_error e then IOError_of e else e), p1, f1, tr)
                  | Return fd \<Rightarrow>
                      (case os_lseek f1 offset' whence of
                         (Raise e, f2) \<Rightarrow>
                           (Raise (if is_socket_error e then IOError_of e else e), p1, f2,
                            tr @ [OsLseek fd offset' whence])
                       | (Return rv, f2) \<Rightarrow>
                           (case clear_readahead_buf rd p1 f2 of
                              (Raise e, p2, f3, tr2) \<Rightarrow>
                                (Raise e, p2, f3, tr @ [OsLseek fd offset' whence] @ tr2)
                            | (Return v, p2, f3, tr2) \<Rightarrow>
                                (Return rv, p2, f3,
                                 tr @ [OsLseek fd offset' whence] @ tr2))))))"

section \<open>Error classes and example values\<close>

text \<open>
  The two tests \<^verbatim>\<open>recv\<close> makes on a caught \<^verbatim>\<open>socket.error\<close>, the wait it asks of the hub,
  and the sockets and OS errors the examples below run on.
\<close>

definition sock0 :: green_socket where
  "sock0 = \<lparr>sock = \<lparr>os_fileno = 3, os_timeout = Some 0\<rparr>, act_non_blocking = False,
            gs_timeout = None, gs_closed = False\<rparr>"

definition in_blocking_class :: "exn \<Rightarrow> bool" where
  "in_blocking_class e = (is_socket_error e \<and> errno_in (get_errno e) SOCKET_BLOCKING)"

definition in_closed_class :: "exn \<Rightarrow> bool" where
  "in_closed_class e = (is_socket_error e \<and> errno_in (get_errno e) SOCKET_CLOSED)"

definition read_wait :: "green_socket \<Rightarrow> call" where
  "read_wait s =
     Trampoline (fileno s) True False (gettimeout s) (Some (SocketTimeout [ArgStr ''timed out'']))"

definition sock_t :: green_socket where
  "sock_t = \<lparr>sock = \<lparr>os_fileno = 3, os_timeout = Some 0\<rparr>, act_non_blocking = False,
            gs_timeout = Some 2, gs_closed = False\<rparr>"

definition sock_closed :: green_socket where
  "sock_closed = \<lparr>sock = \<lparr>os_fileno = 3, os_timeout = Some 0\<rparr>, act_non_blocking = False,
            gs_timeout = Some 2, gs_closed = True\<rparr>"

definition sock_nb :: green_socket where
  "sock_nb = \<lparr>sock = \<lparr>os_fileno = 3, os_timeout = Some 0\<rparr>, act_non_blocking = True,
            gs_timeout = Some 0, gs_closed = False\<rparr>"

definition err_again :: exn where
  "err_again = OSError [ArgInt EAGAIN, ArgStr ''Resource temporarily unavailable'']"

definition err_reset :: exn where
  "err_reset = OSError [ArgInt ECONNRESET, ArgStr ''Connection reset by peer'']"

definition err_refused :: exn where
  "err_refused = OSError [ArgInt ECONNREFUSED, ArgStr ''Connection refused'']"

definition duck0 :: socket_duck where
  "duck0 = \<lparr>d_fileno = 7, d_closed = False, d_refcount = 0\<rparr>"

definition hub_class0 :: pyobj where
  "hub_class0 = PyObj 1 None True"

definition hub0 :: hub_instance where
  "hub0 = HubInstance hub_class0 0"

definition loc0 :: threadlocal where
  "loc0 = \<lparr>tl_Hub = Some (Some hub_class0), tl_hub = Some hub0, tl_built = 1\<rparr>"

definition no_backend :: "string \<Rightarrow> pyobj result" where
  "no_backend name = Raise ImportError"

definition write_wait :: "green_socket \<Rightarrow> call" where
  "write_wait s = Trampoline (fileno s) False True None None"

definition errorcode0 :: "int \<rightharpoonup> string" where
  "errorcode0 = [ECONNREFUSED \<mapsto> ''ECONNREFUSED'']"

definition clock0 :: "nat \<Rightarrow> real" where
  "clock0 k = 0"

text \<open>
  A pipe as the constructor leaves it (no \<^verbatim>\<open>_rbuf\<close>, nothing closed), a file, and what
  \<^verbatim>\<open>flush\<close> of the unbuffered raw stream \<^verbatim>\<open>socket.SocketIO\<close> does on an open stream:
  nothing.
\<close>

definition pipe0 :: green_pipe where
  "pipe0 = \<lparr>gp_sock = duck0, rbuf = None, gp_attrs = {}\<rparr>"

definition file0 :: os_file where
  "file0 = \<lparr>f_pos = 10, f_size = 20\<rparr>"

definition raw_flush ::
  "green_pipe \<Rightarrow> os_file \<Rightarrow> unit result \<times> green_pipe \<times> os_file \<times> call list" where
  "raw_flush p f = (Return (), p, f, [])"

definition base_close0 :: "green_pipe \<Rightarrow> unit result \<times> green_pipe" where
  "base_close0 p = (Return (), p)"

definition class0 :: "string \<Rightarrow> nat \<Rightarrow> green_pipe \<Rightarrow> string result" where
  "class0 name n p = Return (take n ''abc'')"

definition epoll_module :: pyobj where
  "epoll_module = PyObj 2 (Some hub_class0) False"

definition import_epoll_only :: "string \<Rightarrow> pyobj result" where
  "import_epoll_only name =
     (if name = ''guv.hubs.epoll'' then Return epoll_module else Raise ImportError)"

definition loc_fresh :: threadlocal where
  "loc_fresh = \<lparr>tl_Hub = None, tl_hub = None, tl_built = 0\<rparr>"

section \<open>Properties\<close>

lemmas errno_defs =
  EAGAIN_def EWOULDBLOCK_def EPIPE_def EINVAL_def EBADFD_def ECONNRESET_def EISCONN_def
  ENOTCONN_def ESHUTDOWN_def ECONNREFUSED_def EALREADY_def EINPROGRESS_def

subsection \<open>\<^verbatim>\<open>GreenSocket.recv\<close>\<close>

lemma classes_disjoint: "in_blocking_class e \<Longrightarrow> \<not> in_closed_class e"
  by (cases "get_errno e")
     (auto simp: in_blocking_class_def in_closed_class_def SOCKET_BLOCKING_def SOCKET_CLOSED_def
        errno_defs)

lemma GreenSocket_trampoline_ready:
  "\<not> gs_closed s \<Longrightarrow>
   GreenSocket_trampoline s fd rd wr tmo texc (Ready # hub) =
     (Some (Return ()), s, [Trampoline fd rd wr tmo texc], hub)"
  by (simp add: GreenSocket_trampoline_def trampoline_def)

lemma GreenSocket_trampoline_closed_signal:
  "\<not> gs_closed s \<Longrightarrow>
   GreenSocket_trampoline s fd rd wr tmo texc (Closed # hub) =
     (Some (Raise IOClosed), mark_as_closed s, [Trampoline fd rd wr tmo texc], hub)"
  by (simp add: GreenSocket_trampoline_def trampoline_def)

lemma GreenSocket_trampoline_timed_out:
  "\<not> gs_closed s \<Longrightarrow>
   GreenSocket_trampoline s fd rd wr (Some t) (Some e) (TimedOut # hub) =
     (Some (Raise e), (if e = IOClosed then mark_as_closed s else s),
      [Trampoline fd rd wr (Some t) (Some e)], hub)"
  by (simp add: GreenSocket_trampoline_def trampoline_def)

lemma GreenSocket_trampoline_already_closed:
  "gs_closed s \<Longrightarrow>
   GreenSocket_trampoline s fd rd wr tmo texc hub = (Some (Raise IOClosed), s, [], hub)"
  by (simp add: GreenSocket_trampoline_def)

lemma emit_emit: "emit xs (emit ys t) = emit (xs @ ys) t"
  by (cases t) simp

lemma recv_retry:
  assumes "\<not> act_non_blocking s" "\<not> gs_closed s" "in_blocking_class e"
  shows "GreenSocket_recv s buflen flags (Raise e # os) (Ready # hub) =
           emit [OsRecv buflen flags, read_wait s] (GreenSocket_recv s buflen flags os hub)"
  using assms
  by (simp add: in_blocking_class_def read_wait_def GreenSocket_trampoline_ready)

lemma recv_retries:
  assumes "\<not> act_non_blocking s" "\<not> gs_closed s" "\<forall>e \<in> set es. in_blocking_class e"
  shows "GreenSocket_recv s buflen flags (map Raise es @ os) (replicate (length es) Ready @ hub) =
           emit (concat (replicate (length es) [OsRecv buflen flags, read_wait s]))
             (GreenSocket_recv s buflen flags os hub)"
  using assms(3)
proof (induction es)
  case Nil
  show ?case by (cases "GreenSocket_recv s buflen flags os hub") simp
next
  case (Cons e es)
  then have e: "in_blocking_class e" and es: "\<forall>e \<in> set es. in_blocking_class e" by simp_all
  have "GreenSocket_recv s buflen flags (map Raise (e # es) @ os)
          (replicate (length (e # es)) Ready @ hub) =
        emit [OsRecv buflen flags, read_wait s]
          (GreenSocket_recv s buflen flags (map Raise es @ os)
             (replicate (length es) Ready @ hub))"
    using recv_retry [OF assms(1) assms(2) e] by simp
  also have "\<dots> = emit [OsRecv buflen flags, read_wait s]
          (emit (concat (replicate (length es) [OsRecv buflen flags, read_wait s]))
             (GreenSocket_recv s buflen flags os hub))"
    using Cons.IH [OF es] by simp
  finally show ?case by (simp add: emit_emit)
qed

lemma recv_closed_signal:
  assumes "\<not> act_non_blocking s" "\<not> gs_closed s" "in_blocking_class e"
  shows "GreenSocket_recv s buflen flags (Raise e # os) (Closed # hub) =
           (Some (Raise EOFError), mark_as_closed s, [OsRecv buflen flags, read_wait s])"
  using assms
  by (simp add: in_blocking_class_def read_wait_def GreenSocket_trampoline_closed_signal)

lemma recv_already_closed:
  assumes "\<not> act_non_blocking s" "gs_closed s" "in_blocking_class e"
  shows "GreenSocket_recv s buflen flags (Raise e # os) hub =
           (Some (Raise EOFError), s, [OsRecv buflen flags])"
  using assms
  by (simp add: in_blocking_class_def GreenSocket_trampoline_already_closed)

lemma recv_timed_out:
  assumes "\<not> act_non_blocking s" "\<not> gs_closed s" "in_blocking_class e" "gettimeout s = Some t"
  shows "GreenSocket_recv s buflen flags (Raise e # os) (TimedOut # hub) =
           (Some (Raise (SocketTimeout [ArgStr ''timed out''])), s,
            [OsRecv buflen flags, read_wait s])"
  using assms
  by (simp add: in_blocking_class_def read_wait_def GreenSocket_trampoline_timed_out)

lemma recv_peer_closed:
  assumes "\<not> act_non_blocking s" "in_closed_class e"
  shows "GreenSocket_recv s buflen flags (Raise e # os) hub =
           (Some (Return []), s, [OsRecv buflen flags])"
  using assms classes_disjoint [of e]
  by (auto simp: in_closed_class_def in_blocking_class_def)

lemma recv_other_error:
  assumes "\<not> act_non_blocking s" "\<not> in_blocking_class e" "\<not> in_closed_class e"
  shows "GreenSocket_recv s buflen flags (Raise e # os) hub =
           (Some (Raise e), s, [OsRecv buflen flags])"
  using assms
  by (auto simp: in_closed_class_def in_blocking_class_def)

lemma recv_data:
  "\<not> act_non_blocking s \<Longrightarrow>
   GreenSocket_recv s buflen flags (Return d # os) hub =
     (Some (Return d), s, [OsRecv buflen flags])"
  by simp

lemma recv_non_suspending:
  "act_non_blocking s \<Longrightarrow>
   GreenSocket_recv s buflen flags (r # os) hub = (Some r, s, [OsRecv buflen flags])"
  by simp

lemma GreenSocket_trampoline_cases:
  assumes "GreenSocket_trampoline s fd rd wr tmo texc hub = (r, s', tr, hub')"
  shows "act_non_blocking s' = act_non_blocking s \<and> gs_timeout s' = gs_timeout s
         \<and> sock s' = sock s
         \<and> (r = None \<or> r = Some (Return ()) \<or> r = Some (Raise IOClosed)
            \<or> (\<exists>t e. tmo = Some t \<and> r = Some (Raise (case texc of None \<Rightarrow> OtherError ''Timeout'' | Some e \<Rightarrow> e))))"
  using assms
  by (auto simp: GreenSocket_trampoline_def trampoline_def mark_as_closed_def
      split: if_splits list.splits hub_outcome.splits option.splits result.splits)

text \<open>
  Over a whole run in suspending mode, whatever the OS and the hub answer: an exception
  that leaves \<^verbatim>\<open>recv\<close> is \<^verbatim>\<open>EOFError\<close>, the timeout, or an exception the OS raised that is
  in neither class.
\<close>

lemma recv_raises_only:
  "\<not> act_non_blocking s \<Longrightarrow>
   GreenSocket_recv s buflen flags os hub = (Some (Raise x), s', tr) \<Longrightarrow>
   x = EOFError \<or> x = SocketTimeout [ArgStr ''timed out'']
   \<or> (Raise x \<in> set os \<and> \<not> in_blocking_class x \<and> \<not> in_closed_class x)"
proof (induction os arbitrary: s hub s' tr)
  case Nil
  then show ?case by simp
next
  case (Cons r os)
  show ?case
  proof (cases r)
    case (Return d)
    with Cons.prems show ?thesis by simp
  next
    case (Raise e)
    show ?thesis
    proof (cases "in_blocking_class e")
      case False
      with Cons.prems Raise show ?thesis
        by (auto simp: in_blocking_class_def in_closed_class_def split: if_splits)
    next
      case True
      obtain rr s1 tr1 hub1 where
        w: "GreenSocket_trampoline s (fileno s) True False (gettimeout s)
              (Some (SocketTimeout [ArgStr ''timed out''])) hub = (rr, s1, tr1, hub1)"
        by (metis prod_cases4)
      note c = GreenSocket_trampoline_cases [OF w]
      from c Cons.prems(1) have nb: "\<not> act_non_blocking s1" by simp
      from c have "rr = None \<or> rr = Some (Return ()) \<or> rr = Some (Raise IOClosed)
            \<or> rr = Some (Raise (SocketTimeout [ArgStr ''timed out'']))" by auto
      then show ?thesis
      proof (elim disjE)
        assume "rr = Some (Return ())"
        with Cons.prems Raise True w
        obtain tr2 where "GreenSocket_recv s1 buflen flags os hub1 = (Some (Raise x), s', tr2)"
          by (cases "GreenSocket_recv s1 buflen flags os hub1")
             (auto simp: in_blocking_class_def)
        from Cons.IH [OF nb this] show ?thesis by auto
      qed (use Cons.prems Raise True w in \<open>auto simp: in_blocking_class_def\<close>)
    qed
  qed
qed

text \<open>
  C1: \<^verbatim>\<open>recv\<close> in suspending mode. A run of would-block errors is answered by as many
  waits for read-readiness with the logical timeout, each followed by a retry; a
  peer-closed error returns the empty result; an error in neither class is raised
  unchanged; a closed signal during the wait, or a wrapper already marked closed, gives
  \<^verbatim>\<open>EOFError\<close>; an expired wait raises the timeout; data is returned as it is. In
  non-suspending mode the single OS reply is the result.
\<close>

theorem recv_suspending_loop:
  "(\<not> act_non_blocking s \<and> \<not> gs_closed s \<and> list_all in_blocking_class es \<longrightarrow>
      GreenSocket_recv s buflen flags (map Raise es @ os) (replicate (length es) Ready @ hub) =
        emit (concat (replicate (length es) [OsRecv buflen flags, read_wait s]))
          (GreenSocket_recv s buflen flags os hub))
   \<and> (\<not> act_non_blocking s \<and> in_closed_class e1 \<longrightarrow>
      GreenSocket_recv s buflen flags (Raise e1 # os) hub =
        (Some (Return []), s, [OsRecv buflen flags]))
   \<and> (\<not> act_non_blocking s \<and> \<not> in_blocking_class e2 \<and> \<not> in_closed_class e2 \<longrightarrow>
      GreenSocket_recv s buflen flags (Raise e2 # os) hub =
        (Some (Raise e2), s, [OsRecv buflen flags]))
   \<and> (\<not> act_non_blocking s \<and> \<not> gs_closed s \<and> in_blocking_class e3 \<longrightarrow>
      GreenSocket_recv s buflen flags (Raise e3 # os) (Closed # hub) =
        (Some (Raise EOFError), mark_as_closed s, [OsRecv buflen flags, read_wait s]))
   \<and> (\<not> act_non_blocking s \<and> \<not> gs_closed s \<and> in_blocking_class e3 \<and> gettimeout s = Some t \<longrightarrow>
      GreenSocket_recv s buflen flags (Raise e3 # os) (TimedOut # hub) =
        (Some (Raise (SocketTimeout [ArgStr ''timed out''])), s,
         [OsRecv buflen flags, read_wait s]))
   \<and> (\<not> act_non_blocking sc \<and> gs_closed sc \<and> in_blocking_class e3 \<longrightarrow>
      GreenSocket_recv sc buflen flags (Raise e3 # os) hub =
        (Some (Raise EOFError), sc, [OsRecv buflen flags]))
   \<and> (\<not> act_non_blocking s \<longrightarrow>
      GreenSocket_recv s buflen flags (Return d # os) hub =
        (Some (Return d), s, [OsRecv buflen flags]))
   \<and> (act_non_blocking sn \<longrightarrow>
      GreenSocket_recv sn buflen flags (r # os) hub = (Some r, sn, [OsRecv buflen flags]))"
  using recv_retries [of s es buflen flags os hub] recv_peer_closed [of s e1 buflen flags os hub]
    recv_other_error [of s e2 buflen flags os hub] recv_closed_signal [of s e3 buflen flags os hub]
    recv_timed_out [of s e3 t buflen flags os hub]
    recv_already_closed [of sc e3 buflen flags os hub]
    recv_data [of s buflen flags d os hub] recv_non_suspending [of sn buflen flags r os hub]
  unfolding list_all_iff by blast

lemma example_classes:
  "in_blocking_class err_again" "in_closed_class err_reset"
  "\<not> in_blocking_class err_refused" "\<not> in_closed_class err_refused"
  by (simp_all add: in_blocking_class_def in_closed_class_def err_again_def err_reset_def
      err_refused_def SOCKET_BLOCKING_def SOCKET_CLOSED_def errno_defs)

lemma example_sockets:
  "\<not> act_non_blocking sock_t" "\<not> gs_closed sock_t" "gettimeout sock_t = Some 2"
  "\<not> act_non_blocking sock_closed" "gs_closed sock_closed" "act_non_blocking sock_nb"
  by (simp_all add: sock_t_def sock_closed_def sock_nb_def gettimeout_def)

theorem recv_suspending_loop_witness:
  "\<not> act_non_blocking sock_t \<and> \<not> gs_closed sock_t \<and> list_all in_blocking_class [err_again]
   \<and> GreenSocket_recv sock_t 16 0 (map Raise [err_again] @ [Raise err_reset])
        (replicate (length [err_again]) Ready @ []) =
        emit (concat (replicate (length [err_again]) [OsRecv 16 0, read_wait sock_t]))
          (GreenSocket_recv sock_t 16 0 [Raise err_reset] [])
   \<and> in_closed_class err_reset
   \<and> GreenSocket_recv sock_t 16 0 (Raise err_reset # [Raise err_reset]) [] =
        (Some (Return []), sock_t, [OsRecv 16 0])
   \<and> \<not> in_blocking_class err_refused \<and> \<not> in_closed_class err_refused
   \<and> GreenSocket_recv sock_t 16 0 (Raise err_refused # [Raise err_reset]) [] =
        (Some (Raise err_refused), sock_t, [OsRecv 16 0])
   \<and> in_blocking_class err_again
   \<and> GreenSocket_recv sock_t 16 0 (Raise err_again # [Raise err_reset]) (Closed # []) =
        (Some (Raise EOFError), mark_as_closed sock_t, [OsRecv 16 0, read_wait sock_t])
   \<and> gettimeout sock_t = Some 2
   \<and> GreenSocket_recv sock_t 16 0 (Raise err_again # [Raise err_reset]) (TimedOut # []) =
        (Some (Raise (SocketTimeout [ArgStr ''timed out''])), sock_t,
         [OsRecv 16 0, read_wait sock_t])
   \<and> \<not> act_non_blocking sock_closed \<and> gs_closed sock_closed
   \<and> GreenSocket_recv sock_closed 16 0 (Raise err_again # [Raise err_reset]) [] =
        (Some (Raise EOFError), sock_closed, [OsRecv 16 0])
   \<and> GreenSocket_recv sock_t 16 0 (Return ''data'' # [Raise err_reset]) [] =
        (Some (Return ''data''), sock_t, [OsRecv 16 0])
   \<and> act_non_blocking sock_nb
   \<and> GreenSocket_recv sock_nb 16 0 (Raise err_again # [Raise err_reset]) [] =
        (Some (Raise err_again), sock_nb, [OsRecv 16 0])"
  using recv_suspending_loop [of sock_t "[err_again]" 16 0 "[Raise err_reset]" "[]" err_reset
      err_refused err_again 2 sock_closed "''data''" sock_nb "Raise err_again"]
    example_classes example_sockets
  by (simp del: GreenSocket_recv.simps)

subsection \<open>\<^verbatim>\<open>GreenSocket.connect_ex\<close>\<close>

text \<open>
  C2: with no timeout set, a hard connect error is raised by \<^verbatim>\<open>connect_ex\<close>, not returned
  (\<^verbatim>\<open>socket_connect\<close> runs in the loop condition, outside the \<^verbatim>\<open>try\<close>), and a successful
  connect returns \<^verbatim>\<open>None\<close>, not 0.
\<close>

theorem connect_ex_no_timeout_raises:
  "GreenSocket_connect_ex errorcode0 sock0 ''host'' clock0 [Return ECONNREFUSED] [] =
     (Some (Raise (OSError [ArgInt ECONNREFUSED, ArgStr ''ECONNREFUSED''])), sock0,
      [OsConnectEx ''host''])
   \<and> GreenSocket_connect_ex errorcode0 sock0 ''host'' clock0 [Return 0] [] =
     (Some (Return None), sock0, [OsConnectEx ''host''])"
  by (simp add: GreenSocket_connect_ex_def sock0_def gettimeout_def socket_connect_def
      raise_socket_error_def errorcode0_def CONNECT_ERR_def CONNECT_SUCCESS_def EINPROGRESS_def
      EALREADY_def EWOULDBLOCK_def EISCONN_def ECONNREFUSED_def)

text \<open>The branch with a timeout returns the code of the same error, and 0 on success.\<close>

lemma connect_ex_with_timeout_returns_code:
  "GreenSocket_connect_ex errorcode0 sock_t ''host'' clock0 [Return ECONNREFUSED] [] =
     (Some (Return (Some ECONNREFUSED)), sock_t, [OsConnectEx ''host''])
   \<and> GreenSocket_connect_ex errorcode0 sock_t ''host'' clock0 [Return 0] [] =
     (Some (Return (Some 0)), sock_t, [OsConnectEx ''host''])"
  by (simp add: GreenSocket_connect_ex_def sock_t_def gettimeout_def socket_connect_def
      raise_socket_error_def errorcode0_def CONNECT_ERR_def CONNECT_SUCCESS_def EINPROGRESS_def
      EALREADY_def EWOULDBLOCK_def EISCONN_def ECONNREFUSED_def connect_ex_handlers_def)

subsection \<open>The non-suspending mode\<close>

text \<open>
  C3: \<^verbatim>\<open>setblocking(False)\<close> and \<^verbatim>\<open>settimeout(0)\<close> set \<^verbatim>\<open>act_non_blocking\<close>, and while it is
  set each of \<^verbatim>\<open>recv\<close>, \<^verbatim>\<open>send\<close>, \<^verbatim>\<open>connect\<close> and \<^verbatim>\<open>accept\<close> makes exactly one call, the
  OS socket's operation of the same name, and none to the hub: the trace is that single
  call, the result is whatever the OS replied (a value or an exception, or nothing if the
  OS has not replied), and the wrapper is unchanged.
\<close>

theorem non_suspending_single_os_call:
  "act_non_blocking (setblocking s0 False)
   \<and> act_non_blocking (snd (settimeout s0 (PyNum 0)))
   \<and> (act_non_blocking s \<longrightarrow>
        GreenSocket_recv s buflen flags (r1 # os1) hub = (Some r1, s, [OsRecv buflen flags])
      \<and> GreenSocket_recv s buflen flags [] hub = (None, s, [OsRecv buflen flags])
      \<and> GreenSocket_send s data flags (r2 # os2) hub = (Some r2, s, [OsSend data flags])
      \<and> GreenSocket_send s data flags [] hub = (None, s, [OsSend data flags])
      \<and> GreenSocket_connect ec s address (r3 # os3) clock os4 hub =
          (Some r3, s, [OsConnect address])
      \<and> GreenSocket_connect ec s address [] clock os4 hub = (None, s, [OsConnect address])
      \<and> GreenSocket_accept dflt s (r5 # os5) hub =
          (Some (case r5 of Return (c, a) \<Rightarrow> Return (RawConn c a) | Raise e \<Rightarrow> Raise e), s,
           [OsAccept])
      \<and> GreenSocket_accept dflt s [] hub = (None, s, [OsAccept]))"
  by (simp add: setblocking_def settimeout_def GreenSocket_send_def GreenSocket_connect_def
      GreenSocket_accept_def)

theorem non_suspending_single_os_call_witness:
  "act_non_blocking (setblocking sock0 False)
   \<and> GreenSocket_recv (setblocking sock0 False) 16 0 [Raise err_again] [Ready] =
        (Some (Raise err_again), setblocking sock0 False, [OsRecv 16 0])
   \<and> GreenSocket_send (setblocking sock0 False) ''abc'' 0 [Raise err_again] [Ready] =
        (Some (Raise err_again), setblocking sock0 False, [OsSend ''abc'' 0])
   \<and> GreenSocket_connect errorcode0 (setblocking sock0 False) ''host'' [Raise err_refused]
        clock0 [] [Ready] =
        (Some (Raise err_refused), setblocking sock0 False, [OsConnect ''host''])
   \<and> GreenSocket_accept None (setblocking sock0 False) [Raise err_again] [Ready] =
        (Some (Raise err_again), setblocking sock0 False, [OsAccept])"
  using non_suspending_single_os_call [of sock0 "setblocking sock0 False" 16 0
      "Raise err_again" "[]" "[Ready]" "''abc''" "Raise err_again" "[]" errorcode0 "''host''"
      "Raise err_refused" "[]" clock0 "[]" None "Raise err_again" "[]"]
  by (simp del: GreenSocket_recv.simps)

subsection \<open>The closed signal in the adapter\<close>

text \<open>
  C4: the adapter's \<^verbatim>\<open>send\<close> lets the closed signal through without marking the adapter
  closed; its \<^verbatim>\<open>recv\<close>, on the same events, marks it.
\<close>

theorem duck_send_closed_signal_leaves_open:
  "SocketDuckForFd_send duck0 ''x'' [Raise err_again] [Closed] =
     (Some (Raise IOClosed), duck0, [OsWrite 7 ''x'', Trampoline 7 False True None None])
   \<and> d_closed duck0 = False"
  by (simp add: duck0_def err_again_def SOCKET_BLOCKING_def EAGAIN_def EWOULDBLOCK_def
      ENOTCONN_def trampoline_def)

lemma duck_recv_closed_signal_marks_closed:
  "SocketDuckForFd_recv duck0 16 [Raise err_again] [Closed] =
     (Some (Raise IOClosed), duck0\<lparr>d_closed := True\<rparr>,
      [OsRead 7 16, Trampoline 7 True False None None])"
  by (simp add: duck0_def err_again_def SOCKET_BLOCKING_def EAGAIN_def EWOULDBLOCK_def
      ENOTCONN_def trampoline_def SocketDuckForFd_trampoline_def duck_mark_as_closed_def)

subsection \<open>Reference counting of the adapter\<close>

lemma reuses_refcount: "reuses n d = d\<lparr>d_refcount := d_refcount d + int n\<rparr>"
  by (induction n arbitrary: d) (simp_all add: SocketDuckForFd_reuse_def)

lemma drops_above_zero:
  "int k < d_refcount d \<Longrightarrow>
   drops im k d loc = (Return (), d\<lparr>d_refcount := d_refcount d - int k\<rparr>, loc, [])"
proof (induction k arbitrary: d)
  case 0
  then show ?case by simp
next
  case (Suc k)
  let ?d1 = "d\<lparr>d_refcount := d_refcount d - 1\<rparr>"
  from Suc.prems have one: "SocketDuckForFd_drop im d loc = (Return (), ?d1, loc, [])"
    by (simp add: SocketDuckForFd_drop_def Let_def)
  from Suc.prems have "int k < d_refcount ?d1" by simp
  from Suc.IH [OF this] one show ?case by simp
qed

lemma drop_last:
  "d_refcount d = 1 \<Longrightarrow> get_hub im loc = (Return h, loc') \<Longrightarrow>
   SocketDuckForFd_drop im d loc =
     (Return (), d\<lparr>d_refcount := 0, d_closed := True\<rparr>, loc',
      [HubNotifyClose h (d_fileno d), OsClose (d_fileno d)])"
  by (simp add: SocketDuckForFd_drop_def Let_def SocketDuckForFd_close_def notify_close_def
      duck_mark_as_closed_def)

lemma drops_to_zero:
  "d_refcount d = int (Suc n) \<Longrightarrow> get_hub im loc = (Return h, loc') \<Longrightarrow>
   drops im (Suc n) d loc =
     (Return (), d\<lparr>d_refcount := 0, d_closed := True\<rparr>, loc',
      [HubNotifyClose h (d_fileno d), OsClose (d_fileno d)])"
proof (induction n arbitrary: d)
  case 0
  then show ?case using drop_last [of d im loc h loc'] by simp
next
  case (Suc n)
  let ?d1 = "d\<lparr>d_refcount := d_refcount d - 1\<rparr>"
  from Suc.prems have one: "SocketDuckForFd_drop im d loc = (Return (), ?d1, loc, [])"
    by (simp add: SocketDuckForFd_drop_def Let_def)
  from Suc.prems have "d_refcount ?d1 = int (Suc n)" by simp
  from Suc.IH [OF this Suc.prems(2)] one show ?case
    by (simp del: drops.simps add: drops.simps(2) [of im "Suc n" d loc])
qed

text \<open>
  C5: on an adapter whose reference count is 0 (as constructed), in a thread whose hub can
  be reached, \<open>N \<ge> 1\<close> calls of \<^verbatim>\<open>_reuse\<close> followed by \<open>N\<close> calls of \<^verbatim>\<open>_drop\<close> release the
  descriptor exactly once: the calls made are one \<^verbatim>\<open>notify_close\<close> of the hub and one
  \<^verbatim>\<open>os.close\<close>, and the adapter is marked closed. Fewer than \<open>N\<close> drops make no call at
  all and leave the adapter open.
\<close>

theorem reuse_drop_releases_once:
  assumes "1 \<le> N" and "d_refcount d = 0" and "get_hub im loc = (Return h, loc')"
  shows "drops im N (reuses N d) loc =
           (Return (), d\<lparr>d_refcount := 0, d_closed := True\<rparr>, loc',
            [HubNotifyClose h (d_fileno d), OsClose (d_fileno d)])
         \<and> (\<forall>k < N. drops im k (reuses N d) loc =
               (Return (), d\<lparr>d_refcount := int N - int k\<rparr>, loc, []))"
proof
  from assms(1) obtain n where N: "N = Suc n" by (cases N) auto
  have "d_refcount (reuses N d) = int (Suc n)"
    using assms(2) N by (simp add: reuses_refcount)
  from drops_to_zero [OF this assms(3)]
  show "drops im N (reuses N d) loc =
           (Return (), d\<lparr>d_refcount := 0, d_closed := True\<rparr>, loc',
            [HubNotifyClose h (d_fileno d), OsClose (d_fileno d)])"
    using N by (simp add: reuses_refcount)
next
  show "\<forall>k < N. drops im k (reuses N d) loc =
               (Return (), d\<lparr>d_refcount := int N - int k\<rparr>, loc, [])"
  proof (intro allI impI)
    fix k assume "k < N"
    then have "int k < d_refcount (reuses N d)"
      using assms(2) by (simp add: reuses_refcount)
    from drops_above_zero [OF this] show
      "drops im k (reuses N d) loc = (Return (), d\<lparr>d_refcount := int N - int k\<rparr>, loc, [])"
      using assms(2) by (simp add: reuses_refcount)
  qed
qed

theorem reuse_drop_releases_once_witness:
  "(1 :: nat) \<le> 2 \<and> d_refcount duck0 = 0 \<and> get_hub no_backend loc0 = (Return hub0, loc0)
   \<and> drops no_backend 2 (reuses 2 duck0) loc0 =
        (Return (), duck0\<lparr>d_refcount := 0, d_closed := True\<rparr>, loc0,
         [HubNotifyClose hub0 7, OsClose 7])
   \<and> (1 :: nat) < 2
   \<and> drops no_backend 1 (reuses 2 duck0) loc0 = (Return (), duck0\<lparr>d_refcount := 1\<rparr>, loc0, [])"
proof -
  have h: "get_hub no_backend loc0 = (Return hub0, loc0)"
    by (simp add: get_hub_def loc0_def)
  have r: "d_refcount duck0 = 0" and f: "d_fileno duck0 = 7"
    by (simp_all add: duck0_def)
  have n: "(1 :: nat) \<le> 2" by simp
  note t = reuse_drop_releases_once [OF n r h, unfolded f]
  have a: "drops no_backend 2 (reuses 2 duck0) loc0 =
        (Return (), duck0\<lparr>d_refcount := 0, d_closed := True\<rparr>, loc0,
         [HubNotifyClose hub0 7, OsClose 7])"
    and b: "\<forall>k<2. drops no_backend k (reuses 2 duck0) loc0 =
        (Return (), duck0\<lparr>d_refcount := int 2 - int k\<rparr>, loc0, [])"
    using t by blast+
  from b have "drops no_backend 1 (reuses 2 duck0) loc0 =
        (Return (), duck0\<lparr>d_refcount := int 2 - int 1\<rparr>, loc0, [])"
    by (simp del: drops.simps reuses.simps)
  then have c: "drops no_backend 1 (reuses 2 duck0) loc0 =
      (Return (), duck0\<lparr>d_refcount := 1\<rparr>, loc0, [])"
    by (simp del: drops.simps reuses.simps)
  from n r h a c show ?thesis by (simp del: drops.simps reuses.simps)
qed

subsection \<open>The closed pipe\<close>

lemma foldl_setattr_closed:
  "gp_attrs (foldl setattr_closed p ms) = gp_attrs p \<union> set ms"
  by (induction ms arbitrary: p) (auto simp: setattr_closed_def)

text \<open>
  C6: once \<^verbatim>\<open>close()\<close> has returned, a call of any of \<^verbatim>\<open>fileno\<close>, \<^verbatim>\<open>flush\<close>, \<^verbatim>\<open>isatty\<close>,
  \<^verbatim>\<open>read\<close>, \<^verbatim>\<open>readinto\<close>, \<^verbatim>\<open>readline\<close>, \<^verbatim>\<open>readlines\<close>, \<^verbatim>\<open>seek\<close>, \<^verbatim>\<open>tell\<close>, \<^verbatim>\<open>truncate\<close>,
  \<^verbatim>\<open>write\<close>, \<^verbatim>\<open>writelines\<close>, \<^verbatim>\<open>next\<close>, \<^verbatim>\<open>xreadlines\<close>, \<^verbatim>\<open>__iter__\<close> and \<^verbatim>\<open>__next__\<close> on the
  pipe raises \<^verbatim>\<open>ValueError('I/O operation on closed file')\<close>, whatever its arguments,
  whatever the class would have done and whatever state the pipe was in.
\<close>

theorem closed_pipe_operations_fail:
  assumes "GreenPipe_close base_close p = (Return (), p')"
    and "name \<in> {''fileno'', ''flush'', ''isatty'', ''read'', ''readinto'', ''readline'',
                  ''readlines'', ''seek'', ''tell'', ''truncate'', ''write'', ''writelines'',
                  ''next'', ''xreadlines'', ''__iter__'', ''__next__''}"
  shows "call_method cls p' name args = Raise (ValueError ''I/O operation on closed file'')"
proof -
  from assms(1) obtain q where "p' = foldl setattr_closed q closed_method_names"
    by (auto simp: GreenPipe_close_def split: prod.splits result.splits)
  then have "gp_attrs p' = gp_attrs q \<union> set closed_method_names"
    by (simp add: foldl_setattr_closed)
  moreover from assms(2) have "name \<in> set closed_method_names"
    unfolding closed_method_names_def by auto
  ultimately show ?thesis
    by (simp add: call_method_def operation_on_closed_file_def)
qed

theorem closed_pipe_operations_fail_witness:
  "GreenPipe_close base_close0 pipe0 =
     (Return (), foldl setattr_closed pipe0 closed_method_names)
   \<and> call_method class0 (foldl setattr_closed pipe0 closed_method_names) ''read'' 2 =
       Raise (ValueError ''I/O operation on closed file'')
   \<and> call_method class0 pipe0 ''read'' 2 = Return ''ab''"
proof -
  have c: "GreenPipe_close base_close0 pipe0 =
     (Return (), foldl setattr_closed pipe0 closed_method_names)"
    by (simp add: GreenPipe_close_def base_close0_def)
  have n: "''read'' \<in> {''fileno'', ''flush'', ''isatty'', ''read'', ''readinto'', ''readline'',
                  ''readlines'', ''seek'', ''tell'', ''truncate'', ''write'', ''writelines'',
                  ''next'', ''xreadlines'', ''__iter__'', ''__next__''}"
    by simp
  have o: "call_method class0 pipe0 ''read'' 2 = Return ''ab''"
    by (simp add: call_method_def class0_def pipe0_def)
  from c closed_pipe_operations_fail [OF c n, of class0 2] o show ?thesis by simp
qed

subsection \<open>\<^verbatim>\<open>GreenPipe.tell\<close> and \<^verbatim>\<open>GreenPipe.seek\<close>\<close>

lemma os_lseek_query: "0 \<le> f_pos f \<Longrightarrow> os_lseek f 0 1 = (Return (f_pos f), f)"
  by (simp add: os_lseek_def)

text \<open>
  On every open pipe without the attribute \<^verbatim>\<open>_rbuf\<close>, over any file: \<^verbatim>\<open>tell()\<close> queries the
  position and then raises \<^verbatim>\<open>AttributeError\<close>, and no \<^verbatim>\<open>seek\<close> returns, whatever
  \<^verbatim>\<open>read\<close> would do.
\<close>

lemma tell_without_rbuf:
  assumes "rbuf p = None" "gp_attrs p = {}" "0 \<le> f_pos f"
  shows "GreenPipe_tell raw_flush p f =
           (Raise (AttributeError ''_rbuf''), p, f, [OsLseek (d_fileno (gp_sock p)) 0 1])"
  using assms
  by (simp add: GreenPipe_tell_def self_flush_def raw_flush_def self_fileno_def os_lseek_query
      get_readahead_len_def)

lemma seek_without_rbuf_never_returns:
  assumes "rbuf p = None" "gp_attrs p = {}" "0 \<le> f_pos f"
  shows "fst (GreenPipe_seek raw_flush rd p f offset whence) \<noteq> Return rv"
proof (cases "whence = 1 \<and> offset = 0")
  case True
  with assms tell_without_rbuf [OF assms] show ?thesis
    by (simp add: GreenPipe_seek_def self_flush_def raw_flush_def self_tell_def)
next
  case False
  with assms show ?thesis
    by (auto simp: GreenPipe_seek_def self_flush_def raw_flush_def self_fileno_def
        get_readahead_len_def clear_readahead_buf_def split: prod.splits result.splits)
qed

text \<open>
  C7: on an open pipe as the constructor leaves it, over a seekable file at position 10,
  \<^verbatim>\<open>tell()\<close> does not return the position less the read-ahead length: it calls
  \<^verbatim>\<open>os.lseek(fd, 0, 1)\<close> and then raises \<^verbatim>\<open>AttributeError\<close> for \<^verbatim>\<open>_rbuf\<close>. \<^verbatim>\<open>seek(0, 1)\<close> does
  the same through \<^verbatim>\<open>tell()\<close>; \<^verbatim>\<open>seek(5, 1)\<close> raises it before any \<^verbatim>\<open>os.lseek\<close>; \<^verbatim>\<open>seek(3, 0)\<close>
  moves the file to 3 and then raises it in \<^verbatim>\<open>_clear_readahead_buf\<close>.
\<close>

theorem tell_seek_raise_attribute_error:
  "GreenPipe_tell raw_flush pipe0 file0 =
     (Raise (AttributeError ''_rbuf''), pipe0, file0, [OsLseek 7 0 1])
   \<and> GreenPipe_seek raw_flush rd pipe0 file0 0 1 =
     (Raise (AttributeError ''_rbuf''), pipe0, file0, [OsLseek 7 0 1])
   \<and> GreenPipe_seek raw_flush rd pipe0 file0 5 1 =
     (Raise (AttributeError ''_rbuf''), pipe0, file0, [])
   \<and> GreenPipe_seek raw_flush rd pipe0 file0 3 0 =
     (Raise (AttributeError ''_rbuf''), pipe0, \<lparr>f_pos = 3, f_size = 20\<rparr>, [OsLseek 7 3 0])"
  by (simp add: GreenPipe_tell_def GreenPipe_seek_def self_tell_def self_flush_def raw_flush_def
      self_fileno_def os_lseek_def get_readahead_len_def clear_readahead_buf_def pipe0_def
      file0_def duck0_def Let_def)

subsection \<open>\<^verbatim>\<open>settimeout\<close> and \<^verbatim>\<open>setblocking\<close>\<close>

text \<open>
  C8: \<^verbatim>\<open>settimeout\<close> raises a \<^verbatim>\<open>ValueError\<close> for every negative duration and a \<^verbatim>\<open>TypeError\<close>
  for every argument without a float value (bytes, any other object; \<^verbatim>\<open>None\<close> and the default
  sentinel are the "no timeout" arguments, not rejected), and leaves the socket as it was in
  both cases; \<^verbatim>\<open>settimeout(0)\<close> and \<^verbatim>\<open>setblocking(False)\<close> give the non-suspending mode with
  timeout 0; \<^verbatim>\<open>settimeout(t)\<close> with \<open>t > 0\<close> gives the suspending mode with \<^verbatim>\<open>gettimeout() = t\<close>;
  \<^verbatim>\<open>setblocking(True)\<close> gives the suspending mode with timeout \<^verbatim>\<open>None\<close>.
\<close>

theorem settimeout_setblocking_transitions:
  "(r < 0 \<longrightarrow> settimeout s (PyNum r) = (Raise (ValueError ''Timeout value out of range''), s))
   \<and> settimeout s (PyObject x) = (Raise (TypeError ''a float is required''), s)
   \<and> settimeout s (PyBytes b) = (Raise (TypeError ''a float is required''), s)
   \<and> settimeout s (PyNum 0) = (Return (), s\<lparr>act_non_blocking := True, gs_timeout := Some 0\<rparr>)
   \<and> setblocking s False = s\<lparr>act_non_blocking := True, gs_timeout := Some 0\<rparr>
   \<and> (0 < t \<longrightarrow>
        settimeout s (PyNum t) = (Return (), s\<lparr>act_non_blocking := False, gs_timeout := Some t\<rparr>)
        \<and> gettimeout (snd (settimeout s (PyNum t))) = Some t)
   \<and> setblocking s True = s\<lparr>act_non_blocking := False, gs_timeout := None\<rparr>
   \<and> gettimeout (setblocking s True) = None
   \<and> settimeout s PyNone = (Return (), setblocking s True)
   \<and> settimeout s PyDefaultTimeout = (Return (), setblocking s True)"
  by (simp add: settimeout_def setblocking_def gettimeout_def)

theorem settimeout_setblocking_transitions_witness:
  "(-1 :: real) < 0
   \<and> settimeout sock0 (PyNum (-1)) = (Raise (ValueError ''Timeout value out of range''), sock0)
   \<and> (0 :: real) < 5 / 2
   \<and> settimeout sock0 (PyNum (5 / 2))
       = (Return (), sock0\<lparr>act_non_blocking := False, gs_timeout := Some (5 / 2)\<rparr>)
   \<and> gettimeout (snd (settimeout sock0 (PyNum (5 / 2)))) = Some (5 / 2)"
  using settimeout_setblocking_transitions [of "-1" sock0 "''x''" "''b''" "5 / 2"]
  by (simp add: gettimeout_def)

subsection \<open>The hub singleton\<close>

lemma get_hub_cached: "tl_hub loc = Some h \<Longrightarrow> get_hub im loc = (Return h, loc)"
  by (simp add: get_hub_def)

lemma use_hub_given:
  "use_hub im (Some b) loc =
     (Return (),
      loc\<lparr>tl_hub := None,
          tl_Hub := Some (Some (case Hub_attr b of Some h \<Rightarrow> h | None \<Rightarrow> b))\<rparr>)"
  by (simp add: use_hub_def Let_def split: option.splits)

lemma use_hub_result:
  "use_hub im backend loc = (Return u, loc1) \<Longrightarrow>
   tl_hub loc1 = None \<and> tl_Hub loc1 \<noteq> None \<and> tl_built loc1 = tl_built loc"
  by (auto simp: use_hub_def Let_def split: option.splits result.splits)

lemma get_hub_returns:
  assumes "get_hub im loc = (Return h, loc')"
  shows "tl_hub loc' = Some h"
    and "tl_hub loc = None \<Longrightarrow> tl_built loc' = Suc (tl_built loc) \<and> hub_serial h = tl_built loc"
  using assms
  by (auto simp: get_hub_def call_Hub_def split: option.splits result.splits prod.splits
      if_splits dest: use_hub_result)

lemma get_hub_after_use_hub:
  assumes "constructible (case Hub_attr b of Some h \<Rightarrow> h | None \<Rightarrow> b)"
  shows "get_hub im (snd (use_hub im (Some b) loc)) =
     (Return (HubInstance (case Hub_attr b of Some h \<Rightarrow> h | None \<Rightarrow> b) (tl_built loc)),
      loc\<lparr>tl_Hub := Some (Some (case Hub_attr b of Some h \<Rightarrow> h | None \<Rightarrow> b)),
          tl_hub := Some (HubInstance (case Hub_attr b of Some h \<Rightarrow> h | None \<Rightarrow> b)
                            (tl_built loc)),
          tl_built := Suc (tl_built loc)\<rparr>)"
  using assms by (simp add: use_hub_given get_hub_def call_Hub_def)

lemma get_hub_first_selects_default:
  assumes "tl_hub loc = None" "tl_Hub loc = None" "get_default_hub im = Return (Some b)"
    "constructible (case Hub_attr b of Some h \<Rightarrow> h | None \<Rightarrow> b)"
  shows "get_hub im loc =
     (Return (HubInstance (case Hub_attr b of Some h \<Rightarrow> h | None \<Rightarrow> b) (tl_built loc)),
      loc\<lparr>tl_Hub := Some (Some (case Hub_attr b of Some h \<Rightarrow> h | None \<Rightarrow> b)),
          tl_hub := Some (HubInstance (case Hub_attr b of Some h \<Rightarrow> h | None \<Rightarrow> b)
                            (tl_built loc)),
          tl_built := Suc (tl_built loc)\<rparr>)"
  using assms
  by (auto simp: get_hub_def use_hub_def call_Hub_def Let_def split: option.splits)

text \<open>
  C9: a \<^verbatim>\<open>get_hub\<close> that returns leaves its instance cached, and the next call returns the
  same instance and changes nothing (none is constructed); a call that finds no cached
  instance constructs exactly one; with no type chosen it first selects the default
  backend and constructs from the backend's \<^verbatim>\<open>Hub\<close>, or from the backend itself if it has
  none. \<^verbatim>\<open>use_hub(backend)\<close> removes the cached instance and stores that same choice of
  type, and the \<^verbatim>\<open>get_hub\<close> after it constructs a new instance, which is not the one that
  was cached.
\<close>

theorem get_hub_lazy_singleton:
  "(get_hub im loc = (Return h, loc') \<longrightarrow>
      get_hub im loc' = (Return h, loc') \<and> tl_hub loc' = Some h
      \<and> (tl_hub loc = None \<longrightarrow> tl_built loc' = Suc (tl_built loc)))
   \<and> (tl_hub lc = Some hc \<longrightarrow> get_hub im lc = (Return hc, lc))
   \<and> (tl_hub loc = None \<and> tl_Hub loc = None \<and> get_default_hub im = Return (Some d)
      \<and> constructible (case Hub_attr d of Some t \<Rightarrow> t | None \<Rightarrow> d) \<longrightarrow>
      get_hub im loc =
        (Return (HubInstance (case Hub_attr d of Some t \<Rightarrow> t | None \<Rightarrow> d) (tl_built loc)),
         loc\<lparr>tl_Hub := Some (Some (case Hub_attr d of Some t \<Rightarrow> t | None \<Rightarrow> d)),
             tl_hub := Some (HubInstance (case Hub_attr d of Some t \<Rightarrow> t | None \<Rightarrow> d)
                               (tl_built loc)),
             tl_built := Suc (tl_built loc)\<rparr>))
   \<and> use_hub im (Some b) lc =
        (Return (),
         lc\<lparr>tl_hub := None,
            tl_Hub := Some (Some (case Hub_attr b of Some t \<Rightarrow> t | None \<Rightarrow> b))\<rparr>)
   \<and> (constructible (case Hub_attr b of Some t \<Rightarrow> t | None \<Rightarrow> b) \<longrightarrow>
      get_hub im (snd (use_hub im (Some b) lc)) =
        (Return (HubInstance (case Hub_attr b of Some t \<Rightarrow> t | None \<Rightarrow> b) (tl_built lc)),
         lc\<lparr>tl_Hub := Some (Some (case Hub_attr b of Some t \<Rightarrow> t | None \<Rightarrow> b)),
            tl_hub := Some (HubInstance (case Hub_attr b of Some t \<Rightarrow> t | None \<Rightarrow> b)
                              (tl_built lc)),
            tl_built := Suc (tl_built lc)\<rparr>)
      \<and> (tl_hub lc = Some hc \<and> hub_serial hc < tl_built lc \<longrightarrow>
           fst (get_hub im (snd (use_hub im (Some b) lc))) \<noteq> Return hc))"
proof -
  have 1: "get_hub im loc = (Return h, loc') \<longrightarrow>
      get_hub im loc' = (Return h, loc') \<and> tl_hub loc' = Some h
      \<and> (tl_hub loc = None \<longrightarrow> tl_built loc' = Suc (tl_built loc))"
    using get_hub_returns [of im loc h loc'] get_hub_cached [of loc' h im] by blast
  have 2: "tl_hub lc = Some hc \<longrightarrow> get_hub im lc = (Return hc, lc)"
    using get_hub_cached by blast
  have 5: "constructible (case Hub_attr b of Some t \<Rightarrow> t | None \<Rightarrow> b) \<Longrightarrow>
      tl_hub lc = Some hc \<Longrightarrow> hub_serial hc < tl_built lc \<Longrightarrow>
      fst (get_hub im (snd (use_hub im (Some b) lc))) \<noteq> Return hc"
    using get_hub_after_use_hub [of b im lc] by (cases hc) auto
  show ?thesis
    using 1 2 5 get_hub_first_selects_default [of loc im d] use_hub_given [of im b lc]
      get_hub_after_use_hub [of b im lc]
    by blast
qed

theorem get_hub_lazy_singleton_witness:
  "get_hub import_epoll_only loc_fresh = (Return hub0, loc0)
   \<and> get_hub import_epoll_only loc0 = (Return hub0, loc0)
   \<and> tl_hub loc0 = Some hub0
   \<and> tl_hub loc_fresh = None \<and> tl_built loc0 = Suc (tl_built loc_fresh)
   \<and> tl_Hub loc_fresh = None
   \<and> get_default_hub import_epoll_only = Return (Some epoll_module)
   \<and> constructible hub_class0
   \<and> use_hub import_epoll_only (Some epoll_module) loc0 =
        (Return (), loc0\<lparr>tl_hub := None, tl_Hub := Some (Some hub_class0)\<rparr>)
   \<and> get_hub import_epoll_only (snd (use_hub import_epoll_only (Some epoll_module) loc0)) =
        (Return (HubInstance hub_class0 (tl_built loc0)),
         loc0\<lparr>tl_Hub := Some (Some hub_class0),
              tl_hub := Some (HubInstance hub_class0 (tl_built loc0)),
              tl_built := Suc (tl_built loc0)\<rparr>)
   \<and> hub_serial hub0 < tl_built loc0
   \<and> fst (get_hub import_epoll_only (snd (use_hub import_epoll_only (Some epoll_module) loc0)))
       \<noteq> Return hub0"
proof -
  have d: "get_default_hub import_epoll_only = Return (Some epoll_module)"
    by (simp add: get_default_hub_def import_epoll_only_def)
  have c: "(case Hub_attr epoll_module of Some t \<Rightarrow> t | None \<Rightarrow> epoll_module) = hub_class0"
    and k: "constructible hub_class0"
    by (simp_all add: epoll_module_def hub_class0_def)
  have f: "tl_hub loc_fresh = None" "tl_Hub loc_fresh = None"
    "tl_hub loc0 = Some hub0" "hub_serial hub0 < tl_built loc0"
    by (simp_all add: loc_fresh_def loc0_def hub0_def)
  have g: "get_hub import_epoll_only loc_fresh = (Return hub0, loc0)"
    by (simp add: get_hub_def use_hub_def d c k call_Hub_def Let_def loc_fresh_def loc0_def
        hub0_def epoll_module_def)
  note t = get_hub_lazy_singleton [where im = import_epoll_only and loc = loc_fresh
      and h = hub0 and loc' = loc0 and lc = loc0 and hc = hub0 and d = epoll_module
      and b = epoll_module, unfolded c]
  from t d k f g show ?thesis by blast
qed

subsection \<open>\<^verbatim>\<open>GreenSocket.sendto\<close>\<close>

text \<open>
  C10 as stated fails on a wrapper already marked closed: \<^verbatim>\<open>sendto\<close> raises \<^verbatim>\<open>IOClosed\<close>
  and calls neither the hub nor the OS.
\<close>

theorem sendto_closed_wrapper_counterexample:
  "GreenSocket_sendto sock_closed [PyBytes ''x''] [Return 1] [Ready] =
     (Some (Raise IOClosed), sock_closed, [])
   \<and> snd (snd (GreenSocket_sendto sock_closed [PyBytes ''x''] [Return 1] [Ready])) \<noteq>
       [write_wait sock_closed, OsSendto [PyBytes ''x'']]"
  by (simp add: GreenSocket_sendto_def GreenSocket_trampoline_def sock_closed_def)

text \<open>
  C10, amended: on a wrapper not marked closed, \<^verbatim>\<open>sendto\<close> asks the hub exactly once, for
  write-readiness and with no deadline, whatever \<^verbatim>\<open>act_non_blocking\<close> and the logical
  timeout are; unless the hub signals closed (then the wrapper is marked closed,
  \<^verbatim>\<open>IOClosed\<close> is raised and the OS is not called) it then calls the OS \<^verbatim>\<open>sendto\<close> exactly
  once and returns its reply. A wrapper already marked closed raises \<^verbatim>\<open>IOClosed\<close> with
  neither call.
\<close>

theorem sendto_waits_once_without_deadline:
  "(\<not> gs_closed s \<and> h \<noteq> Closed \<longrightarrow>
      GreenSocket_sendto (s\<lparr>act_non_blocking := b, gs_timeout := t\<rparr>) args (r # os) (h # hub) =
        (Some r, s\<lparr>act_non_blocking := b, gs_timeout := t\<rparr>, [write_wait s, OsSendto args]))
   \<and> (\<not> gs_closed s \<longrightarrow>
      GreenSocket_sendto (s\<lparr>act_non_blocking := b, gs_timeout := t\<rparr>) args os' (Closed # hub) =
        (Some (Raise IOClosed),
         s\<lparr>act_non_blocking := b, gs_timeout := t, gs_closed := True\<rparr>,
         [write_wait s])
      \<and> gs_closed (fst (snd (GreenSocket_sendto (s\<lparr>act_non_blocking := b, gs_timeout := t\<rparr>)
                                args os' (Closed # hub)))))
   \<and> (gs_closed sc \<longrightarrow>
      GreenSocket_sendto sc args os' hub' = (Some (Raise IOClosed), sc, []))"
  by (cases h)
     (simp_all add: GreenSocket_sendto_def GreenSocket_trampoline_def trampoline_def
        write_wait_def fileno_def mark_as_closed_def)

theorem sendto_waits_once_without_deadline_witness:
  "\<not> gs_closed sock0 \<and> Ready \<noteq> Closed
   \<and> GreenSocket_sendto (sock0\<lparr>act_non_blocking := True, gs_timeout := Some 0\<rparr>)
        [PyBytes ''x''] (Return 1 # []) (Ready # []) =
        (Some (Return 1), sock0\<lparr>act_non_blocking := True, gs_timeout := Some 0\<rparr>,
         [write_wait sock0, OsSendto [PyBytes ''x'']])
   \<and> GreenSocket_sendto (sock0\<lparr>act_non_blocking := True, gs_timeout := Some 0\<rparr>)
        [PyBytes ''x''] [Return 1] (Closed # []) =
        (Some (Raise IOClosed),
         sock0\<lparr>act_non_blocking := True, gs_timeout := Some 0, gs_closed := True\<rparr>,
         [write_wait sock0])
   \<and> gs_closed (fst (snd (GreenSocket_sendto
                            (sock0\<lparr>act_non_blocking := True, gs_timeout := Some 0\<rparr>)
                            [PyBytes ''x''] [Return 1] (Closed # []))))
   \<and> gs_closed sock_closed
   \<and> GreenSocket_sendto sock_closed [PyBytes ''x''] [Return 1] [Ready] =
        (Some (Raise IOClosed), sock_closed, [])"
  using sendto_waits_once_without_deadline [where s = sock0 and h = Ready and b = True
      and t = "Some 0" and args = "[PyBytes ''x'']" and r = "Return 1" and os = "[]"
      and hub = "[]" and os' = "[Return 1]" and sc = sock_closed and hub' = "[Ready]"]
  by (simp add: sock0_def sock_closed_def)

end
